theory Spec2Isabelle
  imports Main "HOL-Library.Sublist"
begin

section \<open>Values of the scripts\<close>

text \<open>
  The repository holds two provisioning scripts, \<^verbatim>\<open>spl_token_operations_raw.ts\<close>
  (web3.js, called the raw variant below) and \<^verbatim>\<open>spl_token_operations_kit.ts\<close>
  (Solana Kit, the kit variant). Both talk to a remote ledger through an RPC object and
  report on the console.

  A thrown JavaScript value is modelled by the two things the scripts ever look at:
  the code that \<^verbatim>\<open>isSolanaError\<close> compares (absent for a plain \<^verbatim>\<open>Error\<close>)
  and the \<^verbatim>\<open>message\<close> property (absent when the thrown value has none).
  Strings are byte strings in UTF-8, so a non-ASCII message is written with its bytes.
\<close>

datatype js_error = JsError (solana_code: "int option") (message: "string option")

definition new_Error :: "string \<Rightarrow> js_error" where
  "new_Error m = JsError None (Some m)"

text \<open>\<^verbatim>\<open>String.prototype.includes\<close>: does \<open>t\<close> occur in \<open>s\<close> as a contiguous run.\<close>

fun str_includes :: "string \<Rightarrow> string \<Rightarrow> bool" where
  "str_includes [] t = (t = [])"
| "str_includes (c # s) t = (take (length t) (c # s) = t \<or> str_includes s t)"

type_synonym signature = string

datatype address = Pubkey nat | Ata address address

datatype conf_status = Processed | Confirmed | Finalized

text \<open>
  What an address holds on the ledger, as far as the scripts and their requests go: space
  allocated for the token program, an asset mint (decimals, supply, mint authority, freeze
  authority) or a holder account (mint, owner, amount in base units).
\<close>

datatype account =
    Allocated nat
  | Mint_account nat nat "address option" "address option"
  | Token_account address address nat

text \<open>
  The instructions the scripts build, with the arguments they pass:
  create account (payer, new account, space, lamports; owner is the token program),
  initialize mint (mint, decimals, mint authority, freeze authority),
  create associated token account and its idempotent form (payer, account, owner, mint),
  mint to (mint, destination, authority, amount), transfer (source, destination,
  authority, amount).
\<close>

datatype instruction =
    CreateAccount address address nat nat
  | InitializeMint address nat address "address option"
  | CreateAssociatedToken address address address address
  | CreateAssociatedTokenIdempotent address address address address
  | MintTo address address address nat
  | Transfer address address address nat

record tx_message =
  fee_payer :: address
  lifetime :: "string \<times> nat"
  instructions :: "instruction list"

datatype signed_tx =
  Signed_tx (signed_message: tx_message) (signers: "address list") (tx_signature: signature)

text \<open>
  What the script does that an observer can see: console lines, timers, and the
  requests it sends that the properties below speak of.
\<close>

datatype event =
    Log_attempt nat nat nat
  | Request_airdrop address nat
  | Poll_sleep nat
  | Status_query signature
  | Log_airdrop_ok
  | Warn_rate_limited nat
  | Backoff_sleep nat
  | Error_max_retries
  | Warn_retrying "string option"
  | Log_sol_balance nat
  | Log_insufficient
  | Log_balance_after_airdrop nat
  | Err_airdrop_failed
  | Err_detail "string option"
  | Err_payer address
  | Err_fund_manually
  | Send_transaction "instruction list"
  | Log_mint_address address
  | Log_ata_created address
  | Log_ata_exists address
  | Err_cannot_create_ata
  | Log_token_account address int
  | Log_holder_address address
  | Log_holder_amount int
  | Log_minted signature
  | Log_new_balance int
  | Log_receiver address
  | Log_transferred signature
  | Log_final_balances int int
  | Log_success
  | Log_fatal js_error

text \<open>
  The program state: the state of the remote boundary (of any type \<open>'w\<close>) and the
  trace of events so far.
\<close>

record 'w pstate =
  world :: 'w
  trace :: "event list"

definition emit :: "event \<Rightarrow> 'w pstate \<Rightarrow> 'w pstate" where
  "emit ev s = s\<lparr>trace := trace s @ [ev]\<rparr>"

text \<open>
  How a call ends: it returns, it throws, or the process exits with a code.
\<close>

datatype 'a outcome = Return 'a | Throw js_error | Exit nat

section \<open>The RPC boundary\<close>

text \<open>
  The boundary is a parameter, as \<^verbatim>\<open>rpc\<close> and \<^verbatim>\<open>connection\<close> are in the
  source: each method takes the boundary's state and gives its answer (\<open>Inl\<close> when the
  call throws) and the next state. Nothing is assumed about the answers.
\<close>

record 'w rpc =
  requestAirdrop :: "address \<Rightarrow> nat \<Rightarrow> 'w \<Rightarrow> (js_error + signature) \<times> 'w"
  getSignatureStatuses :: "signature \<Rightarrow> 'w \<Rightarrow> (js_error + conf_status option) \<times> 'w"
  getLatestBlockhash :: "'w \<Rightarrow> (js_error + string \<times> nat) \<times> 'w"
  confirmTransaction :: "signature \<Rightarrow> string \<times> nat \<Rightarrow> 'w \<Rightarrow> (js_error + unit) \<times> 'w"
  getBalance :: "address \<Rightarrow> 'w \<Rightarrow> (js_error + nat) \<times> 'w"
  getAccountInfo :: "address \<Rightarrow> 'w \<Rightarrow> (js_error + account option) \<times> 'w"
  getTokenAccountBalance :: "address \<Rightarrow> 'w \<Rightarrow> (js_error + nat option) \<times> 'w"
  getAccount :: "address \<Rightarrow> 'w \<Rightarrow> (js_error + nat) \<times> 'w"
  getMinimumBalanceForRentExemption :: "nat \<Rightarrow> 'w \<Rightarrow> (js_error + nat) \<times> 'w"
  generateKeyPair :: "'w \<Rightarrow> address \<times> 'w"
  signTransactionMessageWithSigners :: "tx_message \<Rightarrow> 'w \<Rightarrow> (js_error + signed_tx) \<times> 'w"
  sendAndConfirm :: "signed_tx \<Rightarrow> 'w \<Rightarrow> (js_error + unit) \<times> 'w"
  web3_sendAndConfirmTransaction ::
    "instruction list \<Rightarrow> address list \<Rightarrow> 'w \<Rightarrow> (js_error + signature) \<times> 'w"

text \<open>
  Besides the RPC methods the record holds the operations of the SDK that the scripts
  treat as opaque: key generation, signing, and the two send-and-confirm functions
  (\<open>sendAndConfirm\<close> is what \<^verbatim>\<open>sendAndConfirmTransactionFactory\<close> returns in the
  kit variant, \<open>web3_sendAndConfirmTransaction\<close> is the function of that name that the
  raw variant imports from web3.js). \<open>getTokenAccountBalance\<close> answers with the
  \<^verbatim>\<open>value\<close> of the response (\<open>None\<close> when it is missing) and in it the amount, an
  unsigned integer that the RPC sends in decimal; \<open>getAccount\<close> is the function of
  spl-token, of whose result the raw variant reads the amount.
\<close>

section \<open>Sequencing\<close>

type_synonym ('a, 'w) prog = "'w pstate \<Rightarrow> 'a outcome \<times> 'w pstate"

definition ret :: "'a \<Rightarrow> ('a, 'w) prog" where
  "ret x s = (Return x, s)"

definition throw :: "js_error \<Rightarrow> ('a, 'w) prog" where
  "throw e s = (Throw e, s)"

definition process_exit :: "nat \<Rightarrow> ('a, 'w) prog" where
  "process_exit c s = (Exit c, s)"

definition say :: "event \<Rightarrow> (unit, 'w) prog" where
  "say ev s = (Return (), emit ev s)"

text \<open>An awaited call of the boundary: its exception is thrown on.\<close>

definition call :: "('w \<Rightarrow> (js_error + 'a) \<times> 'w) \<Rightarrow> ('a, 'w) prog" where
  "call f s =
     (case f (world s) of
        (Inl e, w) \<Rightarrow> (Throw e, s\<lparr>world := w\<rparr>)
      | (Inr x, w) \<Rightarrow> (Return x, s\<lparr>world := w\<rparr>))"

text \<open>Statement after statement: a throw or an exit skips what follows.\<close>

definition andThen :: "('a, 'w) prog \<Rightarrow> ('a \<Rightarrow> ('b, 'w) prog) \<Rightarrow> ('b, 'w) prog" where
  "andThen m f s =
     (case m s of
        (Return x, s1) \<Rightarrow> f x s1
      | (Throw e, s1) \<Rightarrow> (Throw e, s1)
      | (Exit c, s1) \<Rightarrow> (Exit c, s1))"

text \<open>\<^verbatim>\<open>try { m } catch (e) { h e }\<close>: an exit is not caught.\<close>

definition try_catch :: "('a, 'w) prog \<Rightarrow> (js_error \<Rightarrow> ('a, 'w) prog) \<Rightarrow> ('a, 'w) prog" where
  "try_catch m h s =
     (case m s of
        (Return x, s1) \<Rightarrow> (Return x, s1)
      | (Throw e, s1) \<Rightarrow> h e s1
      | (Exit c, s1) \<Rightarrow> (Exit c, s1))"

section \<open>Funding with retry\<close>

text \<open>
  The test of the catch block for a throttled request. The kit variant reads the message
  with \<^verbatim>\<open>?.\<close>, so a missing message is simply not rate limited; the raw variant
  reads \<^verbatim>\<open>error.message.includes\<close>, which itself throws a TypeError when the
  message is missing (\<open>None\<close> below).
\<close>

definition rate_limited_msg :: "string \<Rightarrow> bool" where
  "rate_limited_msg m = (str_includes m ''429'' \<or> str_includes m ''Too Many Requests'')"

definition rate_limited_kit :: "js_error \<Rightarrow> bool" where
  "rate_limited_kit e = (case message e of None \<Rightarrow> False | Some m \<Rightarrow> rate_limited_msg m)"

definition rate_limited_raw :: "js_error \<Rightarrow> bool option" where
  "rate_limited_raw e = map_option rate_limited_msg (message e)"

definition type_error :: js_error where
  "type_error = new_Error ''Cannot read properties of undefined (reading includes)''"

text \<open>
  The rate-limited branch of the catch block: \<^verbatim>\<open>waitTime = Math.pow(2, retries) * 1000\<close>,
  the warning with the seconds, and the timer.
\<close>

definition backoff :: "nat \<Rightarrow> 'w pstate \<Rightarrow> 'w pstate" where
  "backoff retries s =
     (let waitTime = 2 ^ retries * 1000
      in emit (Backoff_sleep waitTime) (emit (Warn_rate_limited (waitTime div 1000)) s))"

text \<open>The message of the kit variant's confirmation timeout, six CJK characters.\<close>

definition timeout_message :: string where
  "timeout_message =
     [CHR 0xE7, CHR 0xA9, CHR 0xBA, CHR 0xE6, CHR 0x8A, CHR 0x95,
      CHR 0xE7, CHR 0xA1, CHR 0xAE, CHR 0xE8, CHR 0xAE, CHR 0xA4,
      CHR 0xE8, CHR 0xB6, CHR 0x85, CHR 0xE6, CHR 0x97, CHR 0xB6]"

subsection \<open>Kit variant\<close>

text \<open>
  The confirmation poll, \<^verbatim>\<open>for (let i = 0; i < 30; i++)\<close>: sleep one second, ask for
  the status, stop at confirmed or finalized; an exception of the query is swallowed
  and the loop goes on. The result is the flag \<^verbatim>\<open>confirmed\<close>.
\<close>

function poll_confirmation :: "'w rpc \<Rightarrow> signature \<Rightarrow> nat \<Rightarrow> 'w pstate \<Rightarrow> bool \<times> 'w pstate" where
  "poll_confirmation rpc sig i s =
     (if i < 30 then
        (let s1 = emit (Status_query sig) (emit (Poll_sleep 1000) s)
         in case getSignatureStatuses rpc sig (world s1) of
              (Inr st, w) \<Rightarrow>
                if st = Some Confirmed \<or> st = Some Finalized then (True, s1\<lparr>world := w\<rparr>)
                else poll_confirmation rpc sig (i + 1) (s1\<lparr>world := w\<rparr>)
            | (Inl e, w) \<Rightarrow> poll_confirmation rpc sig (i + 1) (s1\<lparr>world := w\<rparr>))
      else (False, s))"
  by pat_completeness auto
termination
  by (relation "measure (\<lambda>(rpc, sig, i, s). 30 - i)") auto

text \<open>
  The body of the \<^verbatim>\<open>try\<close> of one attempt: the console line, the airdrop request,
  the poll, and the timeout error when the poll ends unconfirmed. \<open>Inl\<close> is what the
  body throws into the catch block.
\<close>

definition airdrop_attempt_kit ::
  "'w rpc \<Rightarrow> address \<Rightarrow> nat \<Rightarrow> nat \<Rightarrow> nat \<Rightarrow> 'w pstate \<Rightarrow> (js_error + signature) \<times> 'w pstate" where
  "airdrop_attempt_kit rpc publicKey amount retries maxRetries s =
     (let s0 = emit (Request_airdrop publicKey amount)
                 (emit (Log_attempt amount (retries + 1) maxRetries) s)
      in case requestAirdrop rpc publicKey amount (world s0) of
           (Inl e, w) \<Rightarrow> (Inl e, s0\<lparr>world := w\<rparr>)
         | (Inr sig, w) \<Rightarrow>
             (case poll_confirmation rpc sig 0 (s0\<lparr>world := w\<rparr>) of
                (True, s2) \<Rightarrow> (Inr sig, emit Log_airdrop_ok s2)
              | (False, s2) \<Rightarrow> (Inl (new_Error timeout_message), s2)))"

text \<open>
  \<^verbatim>\<open>while (retries < maxRetries)\<close> with its catch block. Falling out of the loop
  returns \<^verbatim>\<open>undefined\<close>, which is \<open>Return None\<close>.
\<close>

function airdrop_loop_kit ::
  "'w rpc \<Rightarrow> address \<Rightarrow> nat \<Rightarrow> nat \<Rightarrow> nat \<Rightarrow> 'w pstate \<Rightarrow> signature option outcome \<times> 'w pstate" where
  "airdrop_loop_kit rpc publicKey amount maxRetries retries s =
     (if retries < maxRetries then
        (case airdrop_attempt_kit rpc publicKey amount retries maxRetries s of
           (Inr sig, s1) \<Rightarrow> (Return (Some sig), s1)
         | (Inl error, s1) \<Rightarrow>
             if rate_limited_kit error then
               airdrop_loop_kit rpc publicKey amount maxRetries (retries + 1)
                 (backoff (retries + 1) s1)
             else if retries + 1 \<ge> maxRetries then (Throw error, emit Error_max_retries s1)
             else airdrop_loop_kit rpc publicKey amount maxRetries (retries + 1)
                    (emit (Warn_retrying (message error)) s1))
      else (Return None, s))"
  by pat_completeness auto
termination
  by (relation "measure (\<lambda>(rpc, publicKey, amount, maxRetries, retries, s). maxRetries - retries)")
     auto

definition airdropWithRetry_kit ::
  "'w rpc \<Rightarrow> address \<Rightarrow> nat \<Rightarrow> nat \<Rightarrow> 'w pstate \<Rightarrow> signature option outcome \<times> 'w pstate" where
  "airdropWithRetry_kit rpc publicKey amount maxRetries s =
     airdrop_loop_kit rpc publicKey amount maxRetries 0 s"

subsection \<open>Raw variant\<close>

text \<open>
  The body of the \<^verbatim>\<open>try\<close>: the airdrop request, the latest blockhash, and
  \<^verbatim>\<open>confirmTransaction\<close>, whose returned value the script does not read.
\<close>

definition airdrop_attempt_raw ::
  "'w rpc \<Rightarrow> address \<Rightarrow> nat \<Rightarrow> nat \<Rightarrow> nat \<Rightarrow> 'w pstate \<Rightarrow> (js_error + signature) \<times> 'w pstate" where
  "airdrop_attempt_raw rpc publicKey amount retries maxRetries s =
     (let s0 = emit (Request_airdrop publicKey amount)
                 (emit (Log_attempt amount (retries + 1) maxRetries) s)
      in case requestAirdrop rpc publicKey amount (world s0) of
           (Inl e, w) \<Rightarrow> (Inl e, s0\<lparr>world := w\<rparr>)
         | (Inr sig, w) \<Rightarrow>
             (case getLatestBlockhash rpc w of
                (Inl e, w1) \<Rightarrow> (Inl e, s0\<lparr>world := w1\<rparr>)
              | (Inr bh, w1) \<Rightarrow>
                  (case confirmTransaction rpc sig bh w1 of
                     (Inl e, w2) \<Rightarrow> (Inl e, s0\<lparr>world := w2\<rparr>)
                   | (Inr u, w2) \<Rightarrow> (Inr sig, emit Log_airdrop_ok (s0\<lparr>world := w2\<rparr>)))))"

function airdrop_loop_raw ::
  "'w rpc \<Rightarrow> address \<Rightarrow> nat \<Rightarrow> nat \<Rightarrow> nat \<Rightarrow> 'w pstate \<Rightarrow> signature option outcome \<times> 'w pstate" where
  "airdrop_loop_raw rpc publicKey amount maxRetries retries s =
     (if retries < maxRetries then
        (case airdrop_attempt_raw rpc publicKey amount retries maxRetries s of
           (Inr sig, s1) \<Rightarrow> (Return (Some sig), s1)
         | (Inl error, s1) \<Rightarrow>
             (case rate_limited_raw error of
                None \<Rightarrow> (Throw type_error, s1)
              | Some True \<Rightarrow>
                  airdrop_loop_raw rpc publicKey amount maxRetries (retries + 1)
                    (backoff (retries + 1) s1)
              | Some False \<Rightarrow>
                  if retries + 1 \<ge> maxRetries then (Throw error, emit Error_max_retries s1)
                  else airdrop_loop_raw rpc publicKey amount maxRetries (retries + 1)
                         (emit (Warn_retrying (message error)) s1)))
      else (Return None, s))"
  by pat_completeness auto
termination
  by (relation "measure (\<lambda>(rpc, publicKey, amount, maxRetries, retries, s). maxRetries - retries)")
     auto

definition airdropWithRetry_raw ::
  "'w rpc \<Rightarrow> address \<Rightarrow> nat \<Rightarrow> nat \<Rightarrow> 'w pstate \<Rightarrow> signature option outcome \<times> 'w pstate" where
  "airdropWithRetry_raw rpc publicKey amount maxRetries s =
     airdrop_loop_raw rpc publicKey amount maxRetries 0 s"

section \<open>Reads that never fail (kit variant)\<close>

text \<open>
  \<^verbatim>\<open>getTokenBalance\<close>: the amount of the response as a BigInt, zero when the response
  has no value, zero when the lookup throws.
\<close>

definition getTokenBalance :: "'w rpc \<Rightarrow> address \<Rightarrow> (int, 'w) prog" where
  "getTokenBalance rpc tokenAccountAddress =
     try_catch
       (andThen (call (getTokenAccountBalance rpc tokenAccountAddress))
          (\<lambda>response_value.
             case response_value of
               Some amount \<Rightarrow> ret (int amount)
             | None \<Rightarrow> ret 0))
       (\<lambda>error. ret 0)"

text \<open>\<^verbatim>\<open>accountExists\<close>: is the value of the account info other than null.\<close>

definition accountExists :: "'w rpc \<Rightarrow> address \<Rightarrow> (bool, 'w) prog" where
  "accountExists rpc address =
     try_catch
       (andThen (call (getAccountInfo rpc address))
          (\<lambda>accountInfo_value. ret (accountInfo_value \<noteq> None)))
       (\<lambda>error. ret False)"

section \<open>Submitting a transaction (kit variant)\<close>

definition SOLANA_ERROR_BLOCK_HEIGHT_EXCEEDED :: int where
  "SOLANA_ERROR_BLOCK_HEIGHT_EXCEEDED = 1"

definition isSolanaError :: "js_error \<Rightarrow> int \<Rightarrow> bool" where
  "isSolanaError e code = (solana_code e = Some code)"

text \<open>The message of the error thrown for an expired blockhash; the dash is U+2014.\<close>

definition blockhash_expired_message :: string where
  "blockhash_expired_message =
     ''Blockhash expired '' @ [CHR 0xE2, CHR 0x80, CHR 0x94] @ '' transaction lifetime exceeded''"

definition getSignatureFromTransaction :: "signed_tx \<Rightarrow> signature" where
  "getSignatureFromTransaction signedTx = tx_signature signedTx"

text \<open>
  \<^verbatim>\<open>sendAndConfirmTransaction\<close> of the kit variant. \<open>rpc\<close> stands for the client the
  function makes for itself from the configured endpoint. The parameter
  \<open>additionalSigners\<close> is not used by the source either: signers come from the message.
\<close>

definition sendAndConfirmTransaction ::
  "(signed_tx \<Rightarrow> 'w \<Rightarrow> (js_error + unit) \<times> 'w) \<Rightarrow> 'w rpc \<Rightarrow> instruction list \<Rightarrow> address \<Rightarrow>
   address list \<Rightarrow> (signature, 'w) prog" where
  "sendAndConfirmTransaction sendAndConfirmFn rpc instrs feePayer additionalSigners =
     andThen (call (getLatestBlockhash rpc))
       (\<lambda>latestBlockhash.
          let finalMessage =
                \<lparr>fee_payer = feePayer, lifetime = latestBlockhash, instructions = instrs\<rparr>
          in andThen (call (signTransactionMessageWithSigners rpc finalMessage))
               (\<lambda>signedTx.
                  try_catch
                    (andThen (say (Send_transaction instrs))
                       (\<lambda>_. andThen (call (sendAndConfirmFn signedTx))
                          (\<lambda>_. ret (getSignatureFromTransaction signedTx))))
                    (\<lambda>e. if isSolanaError e SOLANA_ERROR_BLOCK_HEIGHT_EXCEEDED
                         then throw (new_Error blockhash_expired_message)
                         else throw e)))"

text \<open>
  Modelled from the spec: the terminal status of a SubmissionResult (section 3 of the
  spec), for which the source declares no type. The source's function returns the
  signature or throws; read in the spec's words, a returned signature is CONFIRMED, the
  error made for an expired blockhash is EXPIRED, and any other end is FAILED.
\<close>

datatype terminal_status = CONFIRMED | EXPIRED | FAILED

definition terminal_status :: "signature outcome \<Rightarrow> terminal_status" where
  "terminal_status r =
     (case r of
        Return sig \<Rightarrow> CONFIRMED
      | Throw e \<Rightarrow> if e = new_Error blockhash_expired_message then EXPIRED else FAILED
      | Exit c \<Rightarrow> FAILED)"

section \<open>The workflow, kit variant\<close>

definition MINT_SIZE :: nat where
  "MINT_SIZE = 82"

definition LAMPORTS_PER_SOL :: nat where
  "LAMPORTS_PER_SOL = 1000000000"

text \<open>
  The threshold \<^verbatim>\<open>0.01 * 1e9\<close> is the double 10000000 exactly, and balances are
  whole lamports, so the comparison is one of natural numbers.
\<close>

definition funding_threshold :: nat where
  "funding_threshold = 10000000"

text \<open>The message thrown when the balance read again after the airdrop is still low.\<close>

definition still_insufficient_message :: string where
  "still_insufficient_message =
     [CHR 0xE7, CHR 0xA9, CHR 0xBA, CHR 0xE6, CHR 0x8A, CHR 0x95, CHR 0xE5, CHR 0x90, CHR 0x8E,
      CHR 0xE4, CHR 0xBD, CHR 0x99, CHR 0xE9, CHR 0xA2, CHR 0x9D, CHR 0xE4, CHR 0xBB, CHR 0x8D,
      CHR 0xE7, CHR 0x84, CHR 0xB6, CHR 0xE4, CHR 0xB8, CHR 0x8D, CHR 0xE8, CHR 0xB6, CHR 0xB3]"

text \<open>The catch block of the funding step, the same in both variants.\<close>

definition funding_failed :: "address \<Rightarrow> js_error \<Rightarrow> (unit, 'w) prog" where
  "funding_failed payer error =
     andThen (say Err_airdrop_failed)
       (\<lambda>_. andThen (say (Err_detail (message error)))
          (\<lambda>_. andThen (say (Err_payer payer))
             (\<lambda>_. andThen (say Err_fund_manually)
                (\<lambda>_. process_exit 1))))"

text \<open>Lines 239 to 258 of the kit variant: \<^verbatim>\<open>if (balance < 0.01 * 1e9) { ... }\<close>.\<close>

definition fund_payer_kit :: "'w rpc \<Rightarrow> address \<Rightarrow> nat \<Rightarrow> (unit, 'w) prog" where
  "fund_payer_kit rpc payer balance =
     (if balance < funding_threshold then
        andThen (say Log_insufficient)
          (\<lambda>_. try_catch
             (andThen (airdropWithRetry_kit rpc payer (10 * 1000000000) 3)
                (\<lambda>_. andThen (call (getBalance rpc payer))
                   (\<lambda>newBalance. andThen (say (Log_balance_after_airdrop newBalance))
                      (\<lambda>_. if newBalance < funding_threshold
                           then throw (new_Error still_insufficient_message)
                           else ret ()))))
             (funding_failed payer))
      else ret ())"

text \<open>Lines 260 to 296: a new key, the rent, and one transaction that creates the mint.\<close>

definition create_mint_kit :: "'w rpc \<Rightarrow> address \<Rightarrow> (address, 'w) prog" where
  "create_mint_kit rpc payer =
     andThen (\<lambda>s. case generateKeyPair rpc (world s) of (k, w) \<Rightarrow> (Return k, s\<lparr>world := w\<rparr>))
       (\<lambda>mintKeypair.
          andThen (call (getMinimumBalanceForRentExemption rpc MINT_SIZE))
            (\<lambda>rentLamports.
               andThen (sendAndConfirmTransaction (sendAndConfirm rpc) rpc
                          [CreateAccount payer mintKeypair MINT_SIZE rentLamports,
                           InitializeMint mintKeypair 9 payer (Some payer)]
                          payer [mintKeypair])
                 (\<lambda>mintTxSignature.
                    andThen (say (Log_mint_address mintKeypair)) (\<lambda>_. ret mintKeypair))))"

text \<open>
  Lines 298 to 325, and again 361 to 394 for the receiver: the associated token address
  of the mint and the owner, the existence probe, and the creation when the probe says no.
\<close>

definition holder_account_kit :: "'w rpc \<Rightarrow> address \<Rightarrow> address \<Rightarrow> address \<Rightarrow> (address, 'w) prog" where
  "holder_account_kit rpc payer owner mint =
     (let tokenAccountAddress = Ata mint owner
      in andThen (accountExists rpc tokenAccountAddress)
           (\<lambda>found.
              andThen
                (if \<not> found then
                   try_catch
                     (andThen (sendAndConfirmTransaction (sendAndConfirm rpc) rpc
                                 [CreateAssociatedToken payer tokenAccountAddress owner mint]
                                 payer [])
                        (\<lambda>_. say (Log_ata_created tokenAccountAddress)))
                     (\<lambda>error. andThen (say Err_cannot_create_ata) (\<lambda>_. throw error))
                 else say (Log_ata_exists tokenAccountAddress))
                (\<lambda>_. ret tokenAccountAddress)))"

text \<open>Lines 327 to 436: issue, make the receiver, transfer, read the balances again.\<close>

definition issue_and_transfer_kit :: "'w rpc \<Rightarrow> address \<Rightarrow> address \<Rightarrow> address \<Rightarrow> (unit, 'w) prog" where
  "issue_and_transfer_kit rpc payer mint payerTokenAccountAddress =
     andThen (getTokenBalance rpc payerTokenAccountAddress)
       (\<lambda>payerTokenBalance.
     andThen (say (Log_token_account payerTokenAccountAddress payerTokenBalance))
       (\<lambda>_.
     andThen (sendAndConfirmTransaction (sendAndConfirm rpc) rpc
                [MintTo mint payerTokenAccountAddress payer (1000 * 1000000000)] payer [])
       (\<lambda>mintToSignature.
     andThen (say (Log_minted mintToSignature))
       (\<lambda>_.
     andThen (getTokenBalance rpc payerTokenAccountAddress)
       (\<lambda>updatedBalance.
     andThen (say (Log_new_balance updatedBalance))
       (\<lambda>_.
     andThen (\<lambda>s. case generateKeyPair rpc (world s) of (k, w) \<Rightarrow> (Return k, s\<lparr>world := w\<rparr>))
       (\<lambda>receiver.
     andThen (say (Log_receiver receiver))
       (\<lambda>_.
     andThen (holder_account_kit rpc payer receiver mint)
       (\<lambda>receiverTokenAccountAddress.
     andThen (getTokenBalance rpc receiverTokenAccountAddress)
       (\<lambda>receiverTokenBalance.
     andThen (say (Log_token_account receiverTokenAccountAddress receiverTokenBalance))
       (\<lambda>_.
     andThen (sendAndConfirmTransaction (sendAndConfirm rpc) rpc
                [Transfer payerTokenAccountAddress receiverTokenAccountAddress payer
                   (100 * 1000000000)] payer [])
       (\<lambda>transferSignature.
     andThen (say (Log_transferred transferSignature))
       (\<lambda>_.
     andThen (getTokenBalance rpc payerTokenAccountAddress)
       (\<lambda>finalPayerBalance.
     andThen (getTokenBalance rpc receiverTokenAccountAddress)
       (\<lambda>finalReceiverBalance.
     say (Log_final_balances finalPayerBalance finalReceiverBalance))))))))))))))))"

text \<open>\<^verbatim>\<open>main\<close> from the balance check on; the payer's key is already loaded.\<close>

definition main_kit :: "'w rpc \<Rightarrow> address \<Rightarrow> (unit, 'w) prog" where
  "main_kit rpc payer =
     andThen (call (getBalance rpc payer))
       (\<lambda>balance.
     andThen (say (Log_sol_balance balance))
       (\<lambda>_.
     andThen (fund_payer_kit rpc payer balance)
       (\<lambda>_.
     andThen (create_mint_kit rpc payer)
       (\<lambda>mint.
     andThen (holder_account_kit rpc payer payer mint)
       (\<lambda>payerTokenAccountAddress.
     issue_and_transfer_kit rpc payer mint payerTokenAccountAddress)))))"

text \<open>
  \<^verbatim>\<open>main().then(...).catch(...)\<close>: exit code 0 when main returns, 1 when it throws.
\<close>

definition finish :: "(unit, 'w) prog \<Rightarrow> (unit, 'w) prog" where
  "finish m =
     andThen (try_catch m (\<lambda>error. andThen (say (Log_fatal error)) (\<lambda>_. process_exit 1)))
       (\<lambda>_. andThen (say Log_success) (\<lambda>_. process_exit 0))"

definition script_kit :: "'w rpc \<Rightarrow> address \<Rightarrow> (unit, 'w) prog" where
  "script_kit rpc payer = finish (main_kit rpc payer)"

section \<open>The workflow, raw variant\<close>

text \<open>Lines 255 to 267 of the raw variant: no second look at the balance here.\<close>

definition fund_payer_raw :: "'w rpc \<Rightarrow> address \<Rightarrow> nat \<Rightarrow> (unit, 'w) prog" where
  "fund_payer_raw rpc payer balance =
     (if balance < funding_threshold then
        andThen (say Log_insufficient)
          (\<lambda>_. try_catch
             (andThen (airdropWithRetry_raw rpc payer (10 * LAMPORTS_PER_SOL) 3) (\<lambda>_. ret ()))
             (funding_failed payer))
      else ret ())"

definition createMintRaw ::
  "'w rpc \<Rightarrow> address \<Rightarrow> address \<Rightarrow> address option \<Rightarrow> nat \<Rightarrow> (address, 'w) prog" where
  "createMintRaw rpc payer mintAuthority freezeAuthority decimals =
     andThen (\<lambda>s. case generateKeyPair rpc (world s) of (k, w) \<Rightarrow> (Return k, s\<lparr>world := w\<rparr>))
       (\<lambda>mint.
          andThen (call (getMinimumBalanceForRentExemption rpc MINT_SIZE))
            (\<lambda>mintRent.
               let transaction = [CreateAccount payer mint MINT_SIZE mintRent,
                                  InitializeMint mint decimals mintAuthority freezeAuthority]
               in andThen (say (Send_transaction transaction))
                    (\<lambda>_. andThen (call (web3_sendAndConfirmTransaction rpc transaction [payer, mint]))
                       (\<lambda>signature. ret mint))))"

text \<open>
  \<^verbatim>\<open>getAssociatedTokenAddress\<close> of spl-token with \<^verbatim>\<open>allowOwnerOffCurve = false\<close>:
  it throws for an owner that is itself a derived address.
\<close>

definition token_owner_off_curve_error :: js_error where
  "token_owner_off_curve_error = new_Error []"

definition getAssociatedTokenAddress :: "address \<Rightarrow> address \<Rightarrow> (address, 'w) prog" where
  "getAssociatedTokenAddress mint owner =
     (case owner of
        Pubkey k \<Rightarrow> ret (Ata mint owner)
      | Ata m ow \<Rightarrow> throw token_owner_off_curve_error)"

text \<open>
  \<^verbatim>\<open>getOrCreateAssociatedTokenAccountRaw\<close>: return at once when the account info is
  there; when it is null or the lookup throws, send the idempotent creation.
\<close>

definition getOrCreateAssociatedTokenAccountRaw ::
  "'w rpc \<Rightarrow> address \<Rightarrow> address \<Rightarrow> address \<Rightarrow> (address, 'w) prog" where
  "getOrCreateAssociatedTokenAccountRaw rpc payer mint owner =
     andThen (getAssociatedTokenAddress mint owner)
       (\<lambda>associatedTokenAccount.
          andThen (try_catch
                     (andThen (call (getAccountInfo rpc associatedTokenAccount))
                        (\<lambda>accountInfo. ret (accountInfo \<noteq> None)))
                     (\<lambda>error. ret False))
            (\<lambda>found.
               if found then
                 andThen (say (Log_ata_exists associatedTokenAccount))
                   (\<lambda>_. ret associatedTokenAccount)
               else
                 (let transaction =
                        [CreateAssociatedTokenIdempotent payer associatedTokenAccount owner mint]
                  in andThen (say (Send_transaction transaction))
                       (\<lambda>_. andThen (call (web3_sendAndConfirmTransaction rpc transaction [payer]))
                          (\<lambda>signature.
                             andThen (say (Log_ata_created associatedTokenAccount))
                               (\<lambda>_. ret associatedTokenAccount))))))"

definition mintToRaw ::
  "'w rpc \<Rightarrow> address \<Rightarrow> address \<Rightarrow> address \<Rightarrow> address \<Rightarrow> nat \<Rightarrow> (signature, 'w) prog" where
  "mintToRaw rpc payer mint destination authority amount =
     (let transaction = [MintTo mint destination authority amount]
      in andThen (say (Send_transaction transaction))
           (\<lambda>_. call (web3_sendAndConfirmTransaction rpc transaction [payer])))"

definition transferRaw ::
  "'w rpc \<Rightarrow> address \<Rightarrow> address \<Rightarrow> address \<Rightarrow> address \<Rightarrow> nat \<Rightarrow> (signature, 'w) prog" where
  "transferRaw rpc payer source destination authority amount =
     (let transaction = [Transfer source destination authority amount]
      in andThen (say (Send_transaction transaction))
           (\<lambda>_. call (web3_sendAndConfirmTransaction rpc transaction [payer])))"

text \<open>Lines 290 to 351 of the raw variant.\<close>

definition issue_and_transfer_raw :: "'w rpc \<Rightarrow> address \<Rightarrow> address \<Rightarrow> address \<Rightarrow> (unit, 'w) prog" where
  "issue_and_transfer_raw rpc payer mint payerTokenAccount =
     andThen (say (Log_holder_address payerTokenAccount))
       (\<lambda>_.
     andThen (call (getAccount rpc payerTokenAccount))
       (\<lambda>payerAccountInfo_amount.
     andThen (say (Log_holder_amount (int payerAccountInfo_amount)))
       (\<lambda>_.
     andThen (mintToRaw rpc payer mint payerTokenAccount payer (1000 * 1000000000))
       (\<lambda>mintSignature.
     andThen (say (Log_minted mintSignature))
       (\<lambda>_.
     andThen (call (getAccount rpc payerTokenAccount))
       (\<lambda>updatedAccount_amount.
     andThen (say (Log_new_balance (int updatedAccount_amount)))
       (\<lambda>_.
     andThen (\<lambda>s. case generateKeyPair rpc (world s) of (k, w) \<Rightarrow> (Return k, s\<lparr>world := w\<rparr>))
       (\<lambda>receiver.
     andThen (say (Log_receiver receiver))
       (\<lambda>_.
     andThen (getOrCreateAssociatedTokenAccountRaw rpc payer mint receiver)
       (\<lambda>receiverTokenAccount.
     andThen (say (Log_holder_address receiverTokenAccount))
       (\<lambda>_.
     andThen (call (getAccount rpc receiverTokenAccount))
       (\<lambda>receiverAccountInfo_amount.
     andThen (say (Log_holder_amount (int receiverAccountInfo_amount)))
       (\<lambda>_.
     andThen (transferRaw rpc payer payerTokenAccount receiverTokenAccount payer
                (100 * 1000000000))
       (\<lambda>transferSignature.
     andThen (say (Log_transferred transferSignature))
       (\<lambda>_.
     andThen (call (getAccount rpc payerTokenAccount))
       (\<lambda>finalPayerAccount_amount.
     andThen (call (getAccount rpc receiverTokenAccount))
       (\<lambda>finalReceiverAccount_amount.
     say (Log_final_balances (int finalPayerAccount_amount)
            (int finalReceiverAccount_amount)))))))))))))))))))"

text \<open>
  \<^verbatim>\<open>main\<close> of the raw variant. It first asks for the latest blockhash (line 244) and
  does not use the answer.
\<close>

definition main_raw :: "'w rpc \<Rightarrow> address \<Rightarrow> (unit, 'w) prog" where
  "main_raw rpc payer =
     andThen (call (getLatestBlockhash rpc))
       (\<lambda>_.
     andThen (call (getBalance rpc payer))
       (\<lambda>balance.
     andThen (say (Log_sol_balance balance))
       (\<lambda>_.
     andThen (fund_payer_raw rpc payer balance)
       (\<lambda>_.
     andThen (createMintRaw rpc payer payer (Some payer) 9)
       (\<lambda>mint.
     andThen (say (Log_mint_address mint))
       (\<lambda>_.
     andThen (getOrCreateAssociatedTokenAccountRaw rpc payer mint payer)
       (\<lambda>payerTokenAccount.
     issue_and_transfer_raw rpc payer mint payerTokenAccount)))))))"

definition script_raw :: "'w rpc \<Rightarrow> address \<Rightarrow> (unit, 'w) prog" where
  "script_raw rpc payer = finish (main_raw rpc payer)"

section \<open>A reference ledger\<close>

text \<open>
  Modelled from the spec: the ledger behind the RPC boundary, which is no code of the
  repository. The glossary gives its meaning: a holder account tracks a quantity of one
  asset for one owner, an asset mint records decimals, supply and authorities, issuance
  raises the supply and credits a holder account, a transfer moves an amount between
  holder accounts on the owner's authority, funding credits native currency, all
  instructions of one envelope apply or none does (section 5), and creating a holder
  account that exists is refused unless the idempotent instruction is used (section 4.7,
  and the comment at line 159 of the raw variant). Fees and rent are not charged.
  Any call can suffer a transport fault: \<open>fault w k\<close> is the error of the \<open>k\<close>-th call.
\<close>

record ledger =
  accounts :: "address \<Rightarrow> account option"
  lamports :: "address \<Rightarrow> nat"
  next_key :: nat
  fault :: "nat \<Rightarrow> js_error option"
  calls :: nat

definition transport :: "ledger \<Rightarrow> (ledger \<Rightarrow> (js_error + 'a) \<times> ledger) \<Rightarrow> (js_error + 'a) \<times> ledger" where
  "transport w f =
     (let w1 = w\<lparr>calls := calls w + 1\<rparr>
      in case fault w (calls w) of Some e \<Rightarrow> (Inl e, w1) | None \<Rightarrow> f w1)"

fun apply_instruction ::
  "address list \<Rightarrow> instruction \<Rightarrow> (address \<Rightarrow> account option) \<Rightarrow> (address \<Rightarrow> account option) option" where
  "apply_instruction signer_list (CreateAccount payer new space lmp) accs =
     (if payer \<in> set signer_list \<and> new \<in> set signer_list \<and> accs new = None
      then Some (accs(new \<mapsto> Allocated space)) else None)"
| "apply_instruction signer_list (InitializeMint mint decimals authority freeze) accs =
     (case accs mint of
        Some (Allocated space) \<Rightarrow>
          if space = 82 then Some (accs(mint \<mapsto> Mint_account decimals 0 (Some authority) freeze))
          else None
      | _ \<Rightarrow> None)"
| "apply_instruction signer_list (CreateAssociatedToken payer ata owner mint) accs =
     (case accs mint of
        Some (Mint_account d supply a f) \<Rightarrow>
          if payer \<in> set signer_list \<and> ata = Ata mint owner \<and> accs ata = None
          then Some (accs(ata \<mapsto> Token_account mint owner 0)) else None
      | _ \<Rightarrow> None)"
| "apply_instruction signer_list (CreateAssociatedTokenIdempotent payer ata owner mint) accs =
     (case accs mint of
        Some (Mint_account d supply a f) \<Rightarrow>
          if payer \<in> set signer_list \<and> ata = Ata mint owner then
            (case accs ata of
               None \<Rightarrow> Some (accs(ata \<mapsto> Token_account mint owner 0))
             | Some (Token_account m ow amount) \<Rightarrow>
                 if m = mint \<and> ow = owner then Some accs else None
             | Some other \<Rightarrow> None)
          else None
      | _ \<Rightarrow> None)"
| "apply_instruction signer_list (MintTo mint destination authority amount) accs =
     (case (accs mint, accs destination) of
        (Some (Mint_account d supply a f), Some (Token_account m ow held)) \<Rightarrow>
          if a = Some authority \<and> authority \<in> set signer_list \<and> m = mint \<and> supply + amount < 2 ^ 64
          then Some (accs(mint \<mapsto> Mint_account d (supply + amount) a f,
                          destination \<mapsto> Token_account m ow (held + amount)))
          else None
      | _ \<Rightarrow> None)"
| "apply_instruction signer_list (Transfer source destination authority amount) accs =
     (case (accs source, accs destination) of
        (Some (Token_account m1 o1 held1), Some (Token_account m2 o2 held2)) \<Rightarrow>
          if m1 = m2 \<and> o1 = authority \<and> authority \<in> set signer_list \<and> amount \<le> held1 then
            (if source = destination then Some accs
             else Some (accs(source \<mapsto> Token_account m1 o1 (held1 - amount),
                             destination \<mapsto> Token_account m2 o2 (held2 + amount))))
          else None
      | _ \<Rightarrow> None)"

fun apply_instructions ::
  "address list \<Rightarrow> instruction list \<Rightarrow> (address \<Rightarrow> account option) \<Rightarrow> (address \<Rightarrow> account option) option" where
  "apply_instructions signer_list [] accs = Some accs"
| "apply_instructions signer_list (ix # ixs) accs =
     (case apply_instruction signer_list ix accs of
        None \<Rightarrow> None
      | Some accs1 \<Rightarrow> apply_instructions signer_list ixs accs1)"

text \<open>
  The signer objects a kit instruction carries: the script gives
  \<^verbatim>\<open>getCreateAccountInstruction\<close> the payer and the new account as signers, and plain
  addresses to the other builders.
\<close>

fun instruction_signers :: "instruction \<Rightarrow> address list" where
  "instruction_signers (CreateAccount payer new space lmp) = [payer, new]"
| "instruction_signers ix = []"

definition ledger_rejected :: js_error where
  "ledger_rejected = JsError (Some (- 32002)) (Some ''Transaction simulation failed'')"

definition account_not_found :: js_error where
  "account_not_found = JsError (Some (- 32602)) (Some ''Invalid param: could not find account'')"

definition submit :: "address list \<Rightarrow> instruction list \<Rightarrow> 'a \<Rightarrow> ledger \<Rightarrow> (js_error + 'a) \<times> ledger" where
  "submit signer_list ixs sig w =
     transport w
       (\<lambda>w1. case apply_instructions signer_list ixs (accounts w1) of
                None \<Rightarrow> (Inl ledger_rejected, w1)
              | Some accs \<Rightarrow> (Inr sig, w1\<lparr>accounts := accs\<rparr>))"

definition token_amount :: "ledger \<Rightarrow> address \<Rightarrow> nat option" where
  "token_amount w a =
     (case accounts w a of Some (Token_account m ow amount) \<Rightarrow> Some amount | _ \<Rightarrow> None)"

definition ledger_rpc :: "ledger rpc" where
  "ledger_rpc =
     \<lparr>requestAirdrop = (\<lambda>a amount w.
        transport w (\<lambda>w1. (Inr ''airdrop'', w1\<lparr>lamports := (lamports w1)(a := lamports w1 a + amount)\<rparr>))),
      getSignatureStatuses = (\<lambda>sig w. transport w (\<lambda>w1. (Inr (Some Finalized), w1))),
      getLatestBlockhash = (\<lambda>w. transport w (\<lambda>w1. (Inr (''blockhash'', calls w1 + 150), w1))),
      confirmTransaction = (\<lambda>sig bh w. transport w (\<lambda>w1. (Inr (), w1))),
      getBalance = (\<lambda>a w. transport w (\<lambda>w1. (Inr (lamports w1 a), w1))),
      getAccountInfo = (\<lambda>a w. transport w (\<lambda>w1. (Inr (accounts w1 a), w1))),
      getTokenAccountBalance = (\<lambda>a w.
        transport w (\<lambda>w1. case token_amount w1 a of
                             Some amount \<Rightarrow> (Inr (Some amount), w1)
                           | None \<Rightarrow> (Inl account_not_found, w1))),
      getAccount = (\<lambda>a w.
        transport w (\<lambda>w1. case token_amount w1 a of
                             Some amount \<Rightarrow> (Inr amount, w1)
                           | None \<Rightarrow> (Inl account_not_found, w1))),
      getMinimumBalanceForRentExemption = (\<lambda>size w. transport w (\<lambda>w1. (Inr ((size + 128) * 6960), w1))),
      generateKeyPair = (\<lambda>w. (Pubkey (next_key w), w\<lparr>next_key := next_key w + 1\<rparr>)),
      signTransactionMessageWithSigners = (\<lambda>m w.
        (Inr (Signed_tx m (fee_payer m # concat (map instruction_signers (instructions m)))
                ''signature''), w)),
      sendAndConfirm = (\<lambda>tx. submit (signers tx) (instructions (signed_message tx)) ()),
      web3_sendAndConfirmTransaction = (\<lambda>ixs signer_list. submit signer_list ixs ''signature'')\<rparr>"

section \<open>Observations and scripted boundaries\<close>

text \<open>The backoff sleeps of a trace, in milliseconds and in order.\<close>

fun backoff_sleeps :: "event list \<Rightarrow> nat list" where
  "backoff_sleeps [] = []"
| "backoff_sleeps (Backoff_sleep ms # evs) = ms # backoff_sleeps evs"
| "backoff_sleeps (ev # evs) = backoff_sleeps evs"

text \<open>
  The answers the boundary gives to \<open>n\<close> status queries in a row, starting in state
  \<open>w\<close>: what a poll of \<open>n\<close> rounds gets to see.
\<close>

fun polled_statuses ::
  "'w rpc \<Rightarrow> signature \<Rightarrow> nat \<Rightarrow> 'w \<Rightarrow> (js_error + conf_status option) list" where
  "polled_statuses rpc sig 0 w = []"
| "polled_statuses rpc sig (Suc n) w =
     (case getSignatureStatuses rpc sig w of (r, w1) \<Rightarrow> r # polled_statuses rpc sig n w1)"

text \<open>
  A boundary that answers from a script: its state counts the calls made so far, and the
  answers of the faucet, of the status query and of the balance query are functions of
  that count. It serves to run the definitions on concrete inputs.
\<close>

definition script_rpc ::
  "(nat \<Rightarrow> js_error + signature) \<Rightarrow> (nat \<Rightarrow> js_error + conf_status option) \<Rightarrow>
   (nat \<Rightarrow> js_error + nat) \<Rightarrow> nat rpc" where
  "script_rpc air st bal =
     \<lparr>requestAirdrop = (\<lambda>pk amount n. (air n, n + 1)),
      getSignatureStatuses = (\<lambda>sig n. (st n, n + 1)),
      getLatestBlockhash = (\<lambda>n. (Inr (''blockhash'', 150), n + 1)),
      confirmTransaction = (\<lambda>sig bh n. (Inr (), n + 1)),
      getBalance = (\<lambda>a n. (bal n, n + 1)),
      getAccountInfo = (\<lambda>a n. (Inr None, n + 1)),
      getTokenAccountBalance = (\<lambda>a n. (Inr None, n + 1)),
      getAccount = (\<lambda>a n. (Inl account_not_found, n + 1)),
      getMinimumBalanceForRentExemption = (\<lambda>size n. (Inr 0, n + 1)),
      generateKeyPair = (\<lambda>n. (Pubkey n, n + 1)),
      signTransactionMessageWithSigners = (\<lambda>m n. (Inr (Signed_tx m [fee_payer m] ''signature''), n)),
      sendAndConfirm = (\<lambda>tx n. (Inr (), n + 1)),
      web3_sendAndConfirmTransaction = (\<lambda>ixs signer_list n. (Inr ''signature'', n + 1))\<rparr>"

definition too_many_requests :: js_error where
  "too_many_requests = new_Error ''429 Too Many Requests''"

text \<open>
  Two ledgers to run the workflow on: one with no account, no fault and a payer who holds
  0.02 native units, and one that holds a mint (address 2, authority 1) and whose
  \<open>k\<close>-th call suffers a transport fault.
\<close>

definition quiet_ledger :: ledger where
  "quiet_ledger =
     \<lparr>accounts = (\<lambda>a. None), lamports = (\<lambda>a. 20000000), next_key = 2,
      fault = (\<lambda>k. None), calls = 0\<rparr>"

definition probe_fault_ledger :: "nat \<Rightarrow> ledger" where
  "probe_fault_ledger k =
     \<lparr>accounts = (\<lambda>a. None)(Pubkey 2 \<mapsto> Mint_account 9 0 (Some (Pubkey 1)) (Some (Pubkey 1))),
      lamports = (\<lambda>a. 20000000), next_key = 3,
      fault = (\<lambda>n. if n = k then Some (new_Error ''fetch failed'') else None), calls = 0\<rparr>"

text \<open>
  The reference ledger behind a faucet that answers every request with 429, and a ledger
  whose payer holds 0.009 native units: less than the threshold, enough for the rent.
\<close>

definition throttled_ledger_rpc :: "ledger rpc" where
  "throttled_ledger_rpc =
     ledger_rpc\<lparr>requestAirdrop := \<lambda>a amount w. transport w (\<lambda>w1. (Inl too_many_requests, w1))\<rparr>"

definition poor_ledger :: ledger where
  "poor_ledger = quiet_ledger\<lparr>lamports := \<lambda>a. 9000000\<rparr>"

section \<open>Basic facts\<close>

declare poll_confirmation.simps [simp del]

declare airdrop_loop_kit.simps [simp del]

declare airdrop_loop_raw.simps [simp del]

lemma rate_limited_429: "rate_limited_kit too_many_requests" "rate_limited_raw too_many_requests = Some True"
  by (simp_all add: rate_limited_kit_def rate_limited_raw_def too_many_requests_def new_Error_def rate_limited_msg_def)

lemma backoff_sleeps_append: "backoff_sleeps (xs @ ys) = backoff_sleeps xs @ backoff_sleeps ys"
  by (induction xs rule: backoff_sleeps.induct) auto

lemma poll_backoff:
  "backoff_sleeps (trace (snd (poll_confirmation rpc sig i s))) = backoff_sleeps (trace s)"
proof (induction rpc sig i s rule: poll_confirmation.induct)
  case (1 rpc sig i s)
  show ?case
    apply (subst poll_confirmation.simps)
    using 1
    by (auto simp: Let_def emit_def backoff_sleeps_append split: prod.splits sum.splits)
qed

lemma poll_backoff_eq:
  "poll_confirmation rpc sig i s = (b, s') \<Longrightarrow> backoff_sleeps (trace s') = backoff_sleeps (trace s)"
  using poll_backoff [of rpc sig i s] by simp

lemma attempt_kit_backoff:
  "airdrop_attempt_kit rpc pk amt r m s = (res, s') \<Longrightarrow>
   backoff_sleeps (trace s') = backoff_sleeps (trace s)"
  by (auto simp: airdrop_attempt_kit_def Let_def emit_def backoff_sleeps_append
      split: prod.splits sum.splits bool.splits dest!: poll_backoff_eq)

lemma attempt_raw_backoff:
  "airdrop_attempt_raw rpc pk amt r m s = (res, s') \<Longrightarrow>
   backoff_sleeps (trace s') = backoff_sleeps (trace s)"
  by (auto simp: airdrop_attempt_raw_def Let_def emit_def backoff_sleeps_append
      split: prod.splits sum.splits)

lemma backoff_sleeps_backoff:
  "backoff_sleeps (trace (backoff r s)) = backoff_sleeps (trace s) @ [2 ^ r * 1000]"
  by (simp add: backoff_def Let_def emit_def backoff_sleeps_append)

lemma backoff_sleeps_emit_warn:
  "backoff_sleeps (trace (emit (Warn_retrying m) s)) = backoff_sleeps (trace s)"
  by (simp add: emit_def backoff_sleeps_append)

lemma kit_twice_limited:
  assumes "airdrop_attempt_kit rpc pk amt 0 3 s = (Inl e1, s1)" "rate_limited_kit e1"
    "airdrop_attempt_kit rpc pk amt 1 3 (backoff 1 s1) = (Inl e2, s2)" "rate_limited_kit e2"
    "airdrop_attempt_kit rpc pk amt 2 3 (backoff 2 s2) = (Inr sig, s3)"
  shows "airdropWithRetry_kit rpc pk amt 3 s = (Return (Some sig), s3) \<and>
         backoff_sleeps (trace s3) = backoff_sleeps (trace s) @ [2000, 4000]"
proof -
  have l2: "airdrop_loop_kit rpc pk amt 3 2 (backoff 2 s2) = (Return (Some sig), s3)"
    using assms(5) by (subst airdrop_loop_kit.simps) simp
  have l1: "airdrop_loop_kit rpc pk amt 3 1 (backoff 1 s1) = (Return (Some sig), s3)"
    using assms(3,4) l2 by (subst airdrop_loop_kit.simps) (simp add: numeral_2_eq_2)
  have "airdropWithRetry_kit rpc pk amt 3 s = (Return (Some sig), s3)"
    unfolding airdropWithRetry_kit_def
    using assms(1,2) l1 by (subst airdrop_loop_kit.simps) simp
  moreover have "backoff_sleeps (trace s3) = backoff_sleeps (trace s) @ [2000, 4000]"
    using attempt_kit_backoff [OF assms(1)] attempt_kit_backoff [OF assms(3)]
      attempt_kit_backoff [OF assms(5)]
    by (simp add: backoff_sleeps_backoff)
  ultimately show ?thesis by simp
qed

lemma raw_twice_limited:
  assumes "airdrop_attempt_raw rpc pk amt 0 3 s = (Inl e1, s1)" "rate_limited_raw e1 = Some True"
    "airdrop_attempt_raw rpc pk amt 1 3 (backoff 1 s1) = (Inl e2, s2)" "rate_limited_raw e2 = Some True"
    "airdrop_attempt_raw rpc pk amt 2 3 (backoff 2 s2) = (Inr sig, s3)"
  shows "airdropWithRetry_raw rpc pk amt 3 s = (Return (Some sig), s3) \<and>
         backoff_sleeps (trace s3) = backoff_sleeps (trace s) @ [2000, 4000]"
proof -
  have l2: "airdrop_loop_raw rpc pk amt 3 2 (backoff 2 s2) = (Return (Some sig), s3)"
    using assms(5) by (subst airdrop_loop_raw.simps) simp
  have l1: "airdrop_loop_raw rpc pk amt 3 1 (backoff 1 s1) = (Return (Some sig), s3)"
    using assms(3,4) l2 by (subst airdrop_loop_raw.simps) (simp add: numeral_2_eq_2)
  have "airdropWithRetry_raw rpc pk amt 3 s = (Return (Some sig), s3)"
    unfolding airdropWithRetry_raw_def
    using assms(1,2) l1 by (subst airdrop_loop_raw.simps) simp
  moreover have "backoff_sleeps (trace s3) = backoff_sleeps (trace s) @ [2000, 4000]"
    using attempt_raw_backoff [OF assms(1)] attempt_raw_backoff [OF assms(3)]
      attempt_raw_backoff [OF assms(5)]
    by (simp add: backoff_sleeps_backoff)
  ultimately show ?thesis by simp
qed

lemma kit_other_failure:
  assumes "airdrop_attempt_kit rpc pk amt 0 3 s = (Inl e1, s1)" "\<not> rate_limited_kit e1"
    "airdrop_attempt_kit rpc pk amt 1 3 (emit (Warn_retrying (message e1)) s1) = (Inr sig, s2)"
  shows "airdropWithRetry_kit rpc pk amt 3 s = (Return (Some sig), s2) \<and>
         backoff_sleeps (trace s2) = backoff_sleeps (trace s)"
proof -
  have l1: "airdrop_loop_kit rpc pk amt 3 1 (emit (Warn_retrying (message e1)) s1) = (Return (Some sig), s2)"
    using assms(3) by (subst airdrop_loop_kit.simps) simp
  have "airdropWithRetry_kit rpc pk amt 3 s = (Return (Some sig), s2)"
    unfolding airdropWithRetry_kit_def
    using assms(1,2) l1 by (subst airdrop_loop_kit.simps) simp
  moreover have "backoff_sleeps (trace s2) = backoff_sleeps (trace s)"
    using attempt_kit_backoff [OF assms(1)] attempt_kit_backoff [OF assms(3)]
    by (simp add: backoff_sleeps_emit_warn)
  ultimately show ?thesis by simp
qed

lemma raw_other_failure:
  assumes "airdrop_attempt_raw rpc pk amt 0 3 s = (Inl e1, s1)" "rate_limited_raw e1 = Some False"
    "airdrop_attempt_raw rpc pk amt 1 3 (emit (Warn_retrying (message e1)) s1) = (Inr sig, s2)"
  shows "airdropWithRetry_raw rpc pk amt 3 s = (Return (Some sig), s2) \<and>
         backoff_sleeps (trace s2) = backoff_sleeps (trace s)"
proof -
  have l1: "airdrop_loop_raw rpc pk amt 3 1 (emit (Warn_retrying (message e1)) s1) = (Return (Some sig), s2)"
    using assms(3) by (subst airdrop_loop_raw.simps) simp
  have "airdropWithRetry_raw rpc pk amt 3 s = (Return (Some sig), s2)"
    unfolding airdropWithRetry_raw_def
    using assms(1,2) l1 by (subst airdrop_loop_raw.simps) simp
  moreover have "backoff_sleeps (trace s2) = backoff_sleeps (trace s)"
    using attempt_raw_backoff [OF assms(1)] attempt_raw_backoff [OF assms(3)]
    by (simp add: backoff_sleeps_emit_warn)
  ultimately show ?thesis by simp
qed

lemma pstate_world_update: "(s :: 'w pstate)\<lparr>world := w\<rparr> = \<lparr>world = w, trace = trace s\<rparr>"
  by (cases s) simp

lemma pstate_trace_update: "(s :: 'w pstate)\<lparr>trace := t\<rparr> = \<lparr>world = world s, trace = t\<rparr>"
  by (cases s) simp

lemma emit_eq: "emit ev (s :: 'w pstate) = \<lparr>world = world s, trace = trace s @ [ev]\<rparr>"
  by (simp add: emit_def pstate_trace_update)

lemmas pstate_norm = pstate_world_update pstate_trace_update emit_eq

lemma poll_step:
  "i < 30 \<Longrightarrow>
   getSignatureStatuses rpc sig (world s) = (r, w) \<Longrightarrow>
   poll_confirmation rpc sig i s =
     (if r = Inr (Some Confirmed) \<or> r = Inr (Some Finalized)
      then (True, \<lparr>world = w, trace = trace s @ [Poll_sleep 1000, Status_query sig]\<rparr>)
      else poll_confirmation rpc sig (i + 1)
             \<lparr>world = w, trace = trace s @ [Poll_sleep 1000, Status_query sig]\<rparr>)"
  by (subst poll_confirmation.simps) (auto simp: Let_def pstate_norm split: sum.splits)

lemma poll_done: "\<not> i < 30 \<Longrightarrow> poll_confirmation rpc sig i s = (False, s)"
  by (subst poll_confirmation.simps) simp

lemma poll_bound_aux:
  "30 - i = k \<Longrightarrow>
   \<exists>n\<le>k. trace (snd (poll_confirmation rpc sig i s)) =
      trace s @ concat (replicate n [Poll_sleep 1000, Status_query sig])"
proof (induction k arbitrary: i s)
  case 0
  then have "\<not> i < 30" by simp
  then show ?case by (simp add: poll_done)
next
  case (Suc k)
  then have lt: "i < 30" by simp
  obtain r w where q: "getSignatureStatuses rpc sig (world s) = (r, w)"
    by (cases "getSignatureStatuses rpc sig (world s)")
  let ?s1 = "\<lparr>world = w, trace = trace s @ [Poll_sleep 1000, Status_query sig]\<rparr>"
  show ?case
  proof (cases "r = Inr (Some Confirmed) \<or> r = Inr (Some Finalized)")
    case True
    then have "trace (snd (poll_confirmation rpc sig i s)) =
        trace s @ concat (replicate (Suc 0) [Poll_sleep 1000, Status_query sig])"
      by (simp add: poll_step [OF lt q])
    then show ?thesis by (metis Suc_leI zero_less_Suc)
  next
    case False
    from Suc.prems have "30 - (i + 1) = k" by simp
    from Suc.IH [OF this, of ?s1] obtain n where n: "n \<le> k"
      and t: "trace (snd (poll_confirmation rpc sig (i + 1) ?s1)) =
              trace ?s1 @ concat (replicate n [Poll_sleep 1000, Status_query sig])"
      by blast
    have "trace (snd (poll_confirmation rpc sig i s)) =
        trace s @ concat (replicate (Suc n) [Poll_sleep 1000, Status_query sig])"
      using False t by (simp add: poll_step [OF lt q])
    with n show ?thesis by (metis Suc_le_mono)
  qed
qed

lemma poll_unconfirmed:
  "30 - i = k \<Longrightarrow>
   \<forall>r\<in>set (polled_statuses rpc sig k (world s)).
      r \<noteq> Inr (Some Confirmed) \<and> r \<noteq> Inr (Some Finalized) \<Longrightarrow>
   \<exists>w'. poll_confirmation rpc sig i s =
      (False, \<lparr>world = w', trace = trace s @ concat (replicate k [Poll_sleep 1000, Status_query sig])\<rparr>)"
proof (induction k arbitrary: i s)
  case 0
  then have "\<not> i < 30" by simp
  then show ?case by (simp add: poll_done) (metis pstate.surjective old.unit.exhaust)
next
  case (Suc k)
  then have lt: "i < 30" by simp
  obtain r w where q: "getSignatureStatuses rpc sig (world s) = (r, w)"
    by (cases "getSignatureStatuses rpc sig (world s)")
  let ?s1 = "\<lparr>world = w, trace = trace s @ [Poll_sleep 1000, Status_query sig]\<rparr>"
  from Suc.prems(2) q have no: "\<not> (r = Inr (Some Confirmed) \<or> r = Inr (Some Finalized))"
    and rest: "\<forall>r\<in>set (polled_statuses rpc sig k (world ?s1)).
      r \<noteq> Inr (Some Confirmed) \<and> r \<noteq> Inr (Some Finalized)"
    by simp_all
  from Suc.prems have "30 - (i + 1) = k" by simp
  from Suc.IH [OF this rest] obtain w' where
    "poll_confirmation rpc sig (i + 1) ?s1 =
       (False, \<lparr>world = w', trace = trace ?s1 @ concat (replicate k [Poll_sleep 1000, Status_query sig])\<rparr>)"
    by blast
  then show ?case using no by (simp add: poll_step [OF lt q])
qed


lemma never_confirmed_polled:
  assumes "\<forall>w. fst (getSignatureStatuses rpc sig w) \<noteq> Inr (Some Confirmed) \<and>
                fst (getSignatureStatuses rpc sig w) \<noteq> Inr (Some Finalized)"
  shows "\<forall>r\<in>set (polled_statuses rpc sig n w).
      r \<noteq> Inr (Some Confirmed) \<and> r \<noteq> Inr (Some Finalized)"
proof (induction n arbitrary: w)
  case 0
  show ?case by simp
next
  case (Suc n)
  obtain r w1 where q: "getSignatureStatuses rpc sig w = (r, w1)"
    by (cases "getSignatureStatuses rpc sig w")
  with assms [rule_format, of w] Suc.IH [of w1] show ?case by simp
qed


lemma timeout_not_rate_limited: "\<not> rate_limited_kit (new_Error timeout_message)"
  by (simp add: rate_limited_kit_def new_Error_def timeout_message_def rate_limited_msg_def)

lemma attempt_kit_unconfirmed:
  assumes req: "requestAirdrop rpc pk amt (world s) = (Inr sig, w)"
    and never: "\<forall>r\<in>set (polled_statuses rpc sig 30 w).
      r \<noteq> Inr (Some Confirmed) \<and> r \<noteq> Inr (Some Finalized)"
  shows "\<exists>w'. airdrop_attempt_kit rpc pk amt r m s =
      (Inl (new_Error timeout_message),
       \<lparr>world = w', trace = trace s @ [Log_attempt amt (r + 1) m, Request_airdrop pk amt] @
            concat (replicate 30 [Poll_sleep 1000, Status_query sig])\<rparr>)"
proof -
  let ?s0 = "\<lparr>world = w, trace = trace s @ [Log_attempt amt (r + 1) m, Request_airdrop pk amt]\<rparr>"
  from poll_unconfirmed [of 0 30 rpc sig ?s0] never obtain w' where
    "poll_confirmation rpc sig 0 ?s0 =
      (False, \<lparr>world = w', trace = trace ?s0 @ concat (replicate 30 [Poll_sleep 1000, Status_query sig])\<rparr>)"
    by auto
  then show ?thesis using req
    by (auto simp: airdrop_attempt_kit_def Let_def pstate_norm)
qed

lemma attempt_kit_rejected:
  "requestAirdrop rpc pk amt (world s) = (Inl e, w) \<Longrightarrow>
   airdrop_attempt_kit rpc pk amt r m s =
     (Inl e, \<lparr>world = w, trace = trace s @ [Log_attempt amt (r + 1) m, Request_airdrop pk amt]\<rparr>)"
  by (simp add: airdrop_attempt_kit_def Let_def pstate_norm)

lemma driver_all_timeouts:
  assumes never: "\<forall>sig w. fst (getSignatureStatuses rpc sig w) \<noteq> Inr (Some Confirmed) \<and>
                      fst (getSignatureStatuses rpc sig w) \<noteq> Inr (Some Finalized)"
    and req: "\<forall>w. \<exists>sig w'. requestAirdrop rpc pk amt w = (Inr sig, w')"
  shows "fst (airdropWithRetry_kit rpc pk amt 3 s) = Throw (new_Error timeout_message)"
proof -
  have att: "\<exists>s'. airdrop_attempt_kit rpc pk amt r 3 s = (Inl (new_Error timeout_message), s')" for r s
  proof -
    from req obtain sig w where "requestAirdrop rpc pk amt (world s) = (Inr sig, w)" by blast
    from attempt_kit_unconfirmed [OF this never_confirmed_polled [OF never [rule_format, THEN allI]]]
    show ?thesis by blast
  qed
  obtain s1 where a1: "airdrop_attempt_kit rpc pk amt 0 3 s = (Inl (new_Error timeout_message), s1)"
    using att by blast
  let ?w1 = "emit (Warn_retrying (message (new_Error timeout_message))) s1"
  obtain s2 where a2: "airdrop_attempt_kit rpc pk amt 1 3 ?w1 = (Inl (new_Error timeout_message), s2)"
    using att by blast
  let ?w2 = "emit (Warn_retrying (message (new_Error timeout_message))) s2"
  obtain s3 where a3: "airdrop_attempt_kit rpc pk amt 2 3 ?w2 = (Inl (new_Error timeout_message), s3)"
    using att by blast
  have l2: "fst (airdrop_loop_kit rpc pk amt 3 2 ?w2) = Throw (new_Error timeout_message)"
    using a3 by (subst airdrop_loop_kit.simps) (simp add: timeout_not_rate_limited)
  have l1: "fst (airdrop_loop_kit rpc pk amt 3 1 ?w1) = Throw (new_Error timeout_message)"
    using a2 l2 by (subst airdrop_loop_kit.simps) (simp add: timeout_not_rate_limited numeral_2_eq_2)
  show ?thesis unfolding airdropWithRetry_kit_def
    using a1 l1 by (subst airdrop_loop_kit.simps) (simp add: timeout_not_rate_limited)
qed

text \<open>
  A faucet that answers every request with a rate-limiting error: whatever the number of
  attempts allowed, the driver comes back with \<^verbatim>\<open>undefined\<close> and throws nothing.
\<close>

lemma loop_kit_always_rate_limited:
  assumes "\<forall>w. \<exists>e w1. requestAirdrop rpc pk amt w = (Inl e, w1) \<and> rate_limited_kit e"
  shows "m - r = k \<Longrightarrow> fst (airdrop_loop_kit rpc pk amt m r s) = Return None"
proof (induction k arbitrary: r s)
  case 0
  then have "\<not> r < m" by simp
  then show ?case by (subst airdrop_loop_kit.simps) simp
next
  case (Suc k)
  then have lt: "r < m" by simp
  from Suc.prems have k: "m - (r + 1) = k" by simp
  let ?s0 = "\<lparr>world = world s, trace = trace s @ [Log_attempt amt (r + 1) m, Request_airdrop pk amt]\<rparr>"
  from assms obtain e w1 where q: "requestAirdrop rpc pk amt (world s) = (Inl e, w1)"
    and rl: "rate_limited_kit e" by blast
  have a: "airdrop_attempt_kit rpc pk amt r m s =
      (Inl e, \<lparr>world = w1, trace = trace s @ [Log_attempt amt (r + 1) m, Request_airdrop pk amt]\<rparr>)"
    using q by (rule attempt_kit_rejected)
  show ?case
    using lt a rl Suc.IH [OF k]
    by (subst airdrop_loop_kit.simps) simp
qed

lemma airdropWithRetry_kit_always_rate_limited:
  assumes "\<forall>w. \<exists>e w1. requestAirdrop rpc pk amt w = (Inl e, w1) \<and> rate_limited_kit e"
  shows "fst (airdropWithRetry_kit rpc pk amt m s) = Return None"
  unfolding airdropWithRetry_kit_def
  using loop_kit_always_rate_limited [OF assms refl] .

lemma attempt_raw_rejected:
  "requestAirdrop rpc pk amt (world s) = (Inl e, w) \<Longrightarrow>
   airdrop_attempt_raw rpc pk amt r m s =
     (Inl e, \<lparr>world = w, trace = trace s @ [Log_attempt amt (r + 1) m, Request_airdrop pk amt]\<rparr>)"
  by (simp add: airdrop_attempt_raw_def Let_def pstate_norm)

lemma loop_raw_always_rate_limited:
  assumes "\<forall>w. \<exists>e w1. requestAirdrop rpc pk amt w = (Inl e, w1) \<and> rate_limited_raw e = Some True"
  shows "m - r = k \<Longrightarrow> fst (airdrop_loop_raw rpc pk amt m r s) = Return None"
proof (induction k arbitrary: r s)
  case 0
  then have "\<not> r < m" by simp
  then show ?case by (subst airdrop_loop_raw.simps) simp
next
  case (Suc k)
  then have lt: "r < m" by simp
  from Suc.prems have k: "m - (r + 1) = k" by simp
  from assms obtain e w1 where q: "requestAirdrop rpc pk amt (world s) = (Inl e, w1)"
    and rl: "rate_limited_raw e = Some True" by blast
  have a: "airdrop_attempt_raw rpc pk amt r m s =
      (Inl e, \<lparr>world = w1, trace = trace s @ [Log_attempt amt (r + 1) m, Request_airdrop pk amt]\<rparr>)"
    using q by (rule attempt_raw_rejected)
  show ?case
    using lt a rl Suc.IH [OF k]
    by (subst airdrop_loop_raw.simps) simp
qed

lemma airdropWithRetry_raw_always_rate_limited:
  assumes "\<forall>w. \<exists>e w1. requestAirdrop rpc pk amt w = (Inl e, w1) \<and> rate_limited_raw e = Some True"
  shows "fst (airdropWithRetry_raw rpc pk amt m s) = Return None"
  unfolding airdropWithRetry_raw_def
  using loop_raw_always_rate_limited [OF assms refl] .

lemma eval_poll_first:
  "getSignatureStatuses rpc sig (world s) = (Inr (Some Finalized), w) \<Longrightarrow>
   poll_confirmation rpc sig 0 s = (True, \<lparr>world = w, trace = trace s @ [Poll_sleep 1000, Status_query sig]\<rparr>)"
  by (simp add: poll_step)


section \<open>Funding with retry: the properties\<close>

text \<open>
  C1. The claim: when every attempt fails with a rate-limiting error, the retrying funding
  driver with three attempts raises an error after exactly three attempts and never comes
  back normally. The code does otherwise. The catch block tests for rate limiting first
  and tests for exhaustion only in the other branch, so a third rate-limited failure
  sleeps eight seconds, leaves the loop and the function returns \<^verbatim>\<open>undefined\<close>:
  here both variants run against a faucet that always answers 429.
\<close>

theorem airdropWithRetry_rate_limited_exhaustion:
  "airdropWithRetry_kit (script_rpc (\<lambda>n. Inl too_many_requests) (\<lambda>n. Inr None) (\<lambda>n. Inr 0))
     (Pubkey 1) 10000000000 3 \<lparr>world = 0, trace = []\<rparr> =
   (Return None,
    \<lparr>world = 3,
     trace = [Log_attempt 10000000000 1 3, Request_airdrop (Pubkey 1) 10000000000,
              Warn_rate_limited 2, Backoff_sleep 2000,
              Log_attempt 10000000000 2 3, Request_airdrop (Pubkey 1) 10000000000,
              Warn_rate_limited 4, Backoff_sleep 4000,
              Log_attempt 10000000000 3 3, Request_airdrop (Pubkey 1) 10000000000,
              Warn_rate_limited 8, Backoff_sleep 8000]\<rparr>) \<and>
   airdropWithRetry_raw (script_rpc (\<lambda>n. Inl too_many_requests) (\<lambda>n. Inr None) (\<lambda>n. Inr 0))
     (Pubkey 1) 10000000000 3 \<lparr>world = 0, trace = []\<rparr> =
   (Return None,
    \<lparr>world = 3,
     trace = [Log_attempt 10000000000 1 3, Request_airdrop (Pubkey 1) 10000000000,
              Warn_rate_limited 2, Backoff_sleep 2000,
              Log_attempt 10000000000 2 3, Request_airdrop (Pubkey 1) 10000000000,
              Warn_rate_limited 4, Backoff_sleep 4000,
              Log_attempt 10000000000 3 3, Request_airdrop (Pubkey 1) 10000000000,
              Warn_rate_limited 8, Backoff_sleep 8000]\<rparr>)"
  by (simp add: airdropWithRetry_kit_def airdropWithRetry_raw_def airdrop_loop_kit.simps
      airdrop_loop_raw.simps airdrop_attempt_kit_def airdrop_attempt_raw_def script_rpc_def
      Let_def emit_def rate_limited_429 backoff_def)


text \<open>
  C3. With three attempts, when the first two attempts fail with a rate-limiting error and
  the third succeeds, the driver returns the third attempt's signature and performs
  exactly two backoff sleeps, of 2000 and then 4000 milliseconds (1000 times 2 to the
  number of the failed attempt, counted from 1). A failure that is not rate limited is
  retried at once, with no backoff sleep. Both hold for the kit and for the raw variant.
\<close>

theorem airdropWithRetry_backoff_schedule:
  "(\<forall>e1 s1 e2 s2 sig s3.
      airdrop_attempt_kit rpc pk amt 0 3 s = (Inl e1, s1) \<and> rate_limited_kit e1 \<and>
      airdrop_attempt_kit rpc pk amt 1 3 (backoff 1 s1) = (Inl e2, s2) \<and> rate_limited_kit e2 \<and>
      airdrop_attempt_kit rpc pk amt 2 3 (backoff 2 s2) = (Inr sig, s3) \<longrightarrow>
        airdropWithRetry_kit rpc pk amt 3 s = (Return (Some sig), s3) \<and>
        backoff_sleeps (trace s3) = backoff_sleeps (trace s) @ [2000, 4000]) \<and>
   (\<forall>e1 s1 e2 s2 sig s3.
      airdrop_attempt_raw rpc pk amt 0 3 s = (Inl e1, s1) \<and> rate_limited_raw e1 = Some True \<and>
      airdrop_attempt_raw rpc pk amt 1 3 (backoff 1 s1) = (Inl e2, s2) \<and>
      rate_limited_raw e2 = Some True \<and>
      airdrop_attempt_raw rpc pk amt 2 3 (backoff 2 s2) = (Inr sig, s3) \<longrightarrow>
        airdropWithRetry_raw rpc pk amt 3 s = (Return (Some sig), s3) \<and>
        backoff_sleeps (trace s3) = backoff_sleeps (trace s) @ [2000, 4000]) \<and>
   (\<forall>e1 s1 sig s2.
      airdrop_attempt_kit rpc pk amt 0 3 s = (Inl e1, s1) \<and> \<not> rate_limited_kit e1 \<and>
      airdrop_attempt_kit rpc pk amt 1 3 (emit (Warn_retrying (message e1)) s1) = (Inr sig, s2) \<longrightarrow>
        airdropWithRetry_kit rpc pk amt 3 s = (Return (Some sig), s2) \<and>
        backoff_sleeps (trace s2) = backoff_sleeps (trace s)) \<and>
   (\<forall>e1 s1 sig s2.
      airdrop_attempt_raw rpc pk amt 0 3 s = (Inl e1, s1) \<and> rate_limited_raw e1 = Some False \<and>
      airdrop_attempt_raw rpc pk amt 1 3 (emit (Warn_retrying (message e1)) s1) = (Inr sig, s2) \<longrightarrow>
        airdropWithRetry_raw rpc pk amt 3 s = (Return (Some sig), s2) \<and>
        backoff_sleeps (trace s2) = backoff_sleeps (trace s))"
  using kit_twice_limited [of rpc pk amt s] raw_twice_limited [of rpc pk amt s]
    kit_other_failure [of rpc pk amt s] raw_other_failure [of rpc pk amt s]
  by blast


theorem airdropWithRetry_backoff_schedule_witness:
  "airdropWithRetry_kit
     (script_rpc (\<lambda>n. if n < 2 then Inl too_many_requests else Inr ''sig'')
        (\<lambda>n. Inr (Some Finalized)) (\<lambda>n. Inr 0))
     (Pubkey 1) 10000000000 3 \<lparr>world = 0, trace = []\<rparr> =
   (Return (Some ''sig''),
    \<lparr>world = 4,
     trace = [Log_attempt 10000000000 1 3, Request_airdrop (Pubkey 1) 10000000000,
              Warn_rate_limited 2, Backoff_sleep 2000,
              Log_attempt 10000000000 2 3, Request_airdrop (Pubkey 1) 10000000000,
              Warn_rate_limited 4, Backoff_sleep 4000,
              Log_attempt 10000000000 3 3, Request_airdrop (Pubkey 1) 10000000000,
              Poll_sleep 1000, Status_query ''sig'', Log_airdrop_ok]\<rparr>) \<and>
   airdropWithRetry_raw
     (script_rpc (\<lambda>n. if n < 2 then Inl too_many_requests else Inr ''sig'')
        (\<lambda>n. Inr (Some Finalized)) (\<lambda>n. Inr 0))
     (Pubkey 1) 10000000000 3 \<lparr>world = 0, trace = []\<rparr> =
   (Return (Some ''sig''),
    \<lparr>world = 5,
     trace = [Log_attempt 10000000000 1 3, Request_airdrop (Pubkey 1) 10000000000,
              Warn_rate_limited 2, Backoff_sleep 2000,
              Log_attempt 10000000000 2 3, Request_airdrop (Pubkey 1) 10000000000,
              Warn_rate_limited 4, Backoff_sleep 4000,
              Log_attempt 10000000000 3 3, Request_airdrop (Pubkey 1) 10000000000,
              Log_airdrop_ok]\<rparr>) \<and>
   airdropWithRetry_kit
     (script_rpc (\<lambda>n. if n < 1 then Inl (new_Error ''fetch failed'') else Inr ''sig'')
        (\<lambda>n. Inr (Some Finalized)) (\<lambda>n. Inr 0))
     (Pubkey 1) 10000000000 3 \<lparr>world = 0, trace = []\<rparr> =
   (Return (Some ''sig''),
    \<lparr>world = 3,
     trace = [Log_attempt 10000000000 1 3, Request_airdrop (Pubkey 1) 10000000000,
              Warn_retrying (Some ''fetch failed''),
              Log_attempt 10000000000 2 3, Request_airdrop (Pubkey 1) 10000000000,
              Poll_sleep 1000, Status_query ''sig'', Log_airdrop_ok]\<rparr>) \<and>
   airdropWithRetry_raw
     (script_rpc (\<lambda>n. if n < 1 then Inl (new_Error ''fetch failed'') else Inr ''sig'')
        (\<lambda>n. Inr (Some Finalized)) (\<lambda>n. Inr 0))
     (Pubkey 1) 10000000000 3 \<lparr>world = 0, trace = []\<rparr> =
   (Return (Some ''sig''),
    \<lparr>world = 4,
     trace = [Log_attempt 10000000000 1 3, Request_airdrop (Pubkey 1) 10000000000,
              Warn_retrying (Some ''fetch failed''),
              Log_attempt 10000000000 2 3, Request_airdrop (Pubkey 1) 10000000000,
              Log_airdrop_ok]\<rparr>)"
proof -
  let ?rpc = "script_rpc (\<lambda>n. if n < 2 then Inl too_many_requests else Inr ''sig'')
        (\<lambda>n. Inr (Some Finalized)) (\<lambda>n. Inr 0)"
  let ?rpc2 = "script_rpc (\<lambda>n. if n < 1 then Inl (new_Error ''fetch failed'') else Inr ''sig'')
        (\<lambda>n. Inr (Some Finalized)) (\<lambda>n. Inr 0)"
  let ?pk = "Pubkey 1"
  let ?amt = "10000000000 :: nat"
  let ?s0 = "\<lparr>world = 0 :: nat, trace = []\<rparr>"
  let ?a = "[Log_attempt ?amt 1 3, Request_airdrop ?pk ?amt]"
  let ?b = "?a @ [Warn_rate_limited 2, Backoff_sleep 2000, Log_attempt ?amt 2 3, Request_airdrop ?pk ?amt]"
  let ?c = "?b @ [Warn_rate_limited 4, Backoff_sleep 4000, Log_attempt ?amt 3 3, Request_airdrop ?pk ?amt]"
  let ?d = "?a @ [Warn_retrying (Some ''fetch failed''), Log_attempt ?amt 2 3, Request_airdrop ?pk ?amt]"
  note ev = airdrop_attempt_kit_def airdrop_attempt_raw_def script_rpc_def Let_def pstate_norm
    backoff_def rate_limited_429 eval_poll_first
  have nrl: "\<not> rate_limited_kit (new_Error ''fetch failed'')"
    "rate_limited_raw (new_Error ''fetch failed'') = Some False"
    by (simp_all add: rate_limited_kit_def rate_limited_raw_def new_Error_def rate_limited_msg_def)
  have k: "airdropWithRetry_kit ?rpc ?pk ?amt 3 ?s0 =
      (Return (Some ''sig''), \<lparr>world = 4, trace = ?c @ [Poll_sleep 1000, Status_query ''sig'', Log_airdrop_ok]\<rparr>)"
    using airdropWithRetry_backoff_schedule [of ?rpc ?pk ?amt ?s0, THEN conjunct1, rule_format,
        of too_many_requests "\<lparr>world = 1, trace = ?a\<rparr>" too_many_requests "\<lparr>world = 2, trace = ?b\<rparr>"
          "''sig''" "\<lparr>world = 4, trace = ?c @ [Poll_sleep 1000, Status_query ''sig'', Log_airdrop_ok]\<rparr>"]
    by (simp add: ev)
  have r: "airdropWithRetry_raw ?rpc ?pk ?amt 3 ?s0 =
      (Return (Some ''sig''), \<lparr>world = 5, trace = ?c @ [Log_airdrop_ok]\<rparr>)"
    using airdropWithRetry_backoff_schedule [of ?rpc ?pk ?amt ?s0, THEN conjunct2, THEN conjunct1, rule_format,
        of too_many_requests "\<lparr>world = 1, trace = ?a\<rparr>" too_many_requests "\<lparr>world = 2, trace = ?b\<rparr>"
          "''sig''" "\<lparr>world = 5, trace = ?c @ [Log_airdrop_ok]\<rparr>"]
    by (simp add: ev)
  have k2: "airdropWithRetry_kit ?rpc2 ?pk ?amt 3 ?s0 =
      (Return (Some ''sig''), \<lparr>world = 3, trace = ?d @ [Poll_sleep 1000, Status_query ''sig'', Log_airdrop_ok]\<rparr>)"
    using airdropWithRetry_backoff_schedule [of ?rpc2 ?pk ?amt ?s0, THEN conjunct2, THEN conjunct2, THEN conjunct1, rule_format,
        of "new_Error ''fetch failed''" "\<lparr>world = 1, trace = ?a\<rparr>" 
          "''sig''" "\<lparr>world = 3, trace = ?d @ [Poll_sleep 1000, Status_query ''sig'', Log_airdrop_ok]\<rparr>"]
    by (simp add: ev nrl) (simp add: new_Error_def)
  have r2: "airdropWithRetry_raw ?rpc2 ?pk ?amt 3 ?s0 =
      (Return (Some ''sig''), \<lparr>world = 4, trace = ?d @ [Log_airdrop_ok]\<rparr>)"
    using airdropWithRetry_backoff_schedule [of ?rpc2 ?pk ?amt ?s0, THEN conjunct2, THEN conjunct2, THEN conjunct2, rule_format,
        of "new_Error ''fetch failed''" "\<lparr>world = 1, trace = ?a\<rparr>" 
          "''sig''" "\<lparr>world = 4, trace = ?d @ [Log_airdrop_ok]\<rparr>"]
    by (simp add: ev nrl) (simp add: new_Error_def)
  from k r k2 r2 show ?thesis by simp
qed

text \<open>
  C4. The confirmation poll of the kit variant sleeps 1000 milliseconds before each status
  query and makes at most 30 queries. When no query answers confirmed or finalized, the
  attempt makes exactly 30 and fails with the timeout error; a request the faucet rejects
  fails with the faucet's own error and no poll. The timeout error is a plain error with
  its own message, it is not taken for rate limiting, and when every attempt times out it
  is the error the driver throws.
\<close>

theorem funding_poll_timeout:
  "(\<exists>n\<le>30. trace (snd (poll_confirmation rpc sig 0 s)) =
      trace s @ concat (replicate n [Poll_sleep 1000, Status_query sig])) \<and>
   (\<forall>w. requestAirdrop rpc pk amt (world s) = (Inr sig, w) \<and>
        (\<forall>r\<in>set (polled_statuses rpc sig 30 w).
            r \<noteq> Inr (Some Confirmed) \<and> r \<noteq> Inr (Some Finalized)) \<longrightarrow>
        (\<exists>w2. airdrop_attempt_kit rpc pk amt r m s =
           (Inl (new_Error timeout_message),
            \<lparr>world = w2,
             trace = trace s @ [Log_attempt amt (r + 1) m, Request_airdrop pk amt] @
                     concat (replicate 30 [Poll_sleep 1000, Status_query sig])\<rparr>))) \<and>
   (\<forall>e w. requestAirdrop rpc pk amt (world s) = (Inl e, w) \<longrightarrow>
        airdrop_attempt_kit rpc pk amt r m s =
          (Inl e, \<lparr>world = w, trace = trace s @ [Log_attempt amt (r + 1) m, Request_airdrop pk amt]\<rparr>)) \<and>
   ((\<forall>w. \<exists>sg w1. requestAirdrop rpc pk amt w = (Inr sg, w1)) \<and>
    (\<forall>sg w1. fst (getSignatureStatuses rpc sg w1) \<noteq> Inr (Some Confirmed) \<and>
             fst (getSignatureStatuses rpc sg w1) \<noteq> Inr (Some Finalized)) \<longrightarrow>
        fst (airdropWithRetry_kit rpc pk amt 3 s) = Throw (new_Error timeout_message)) \<and>
   message (new_Error timeout_message) = Some timeout_message \<and>
   solana_code (new_Error timeout_message) = None \<and>
   \<not> rate_limited_kit (new_Error timeout_message)"
proof -
  have a: "\<exists>n\<le>30. trace (snd (poll_confirmation rpc sig 0 s)) =
      trace s @ concat (replicate n [Poll_sleep 1000, Status_query sig])"
    using poll_bound_aux [of 0 30 rpc sig s] by simp
  have b: "\<forall>w. requestAirdrop rpc pk amt (world s) = (Inr sig, w) \<and>
        (\<forall>r\<in>set (polled_statuses rpc sig 30 w).
            r \<noteq> Inr (Some Confirmed) \<and> r \<noteq> Inr (Some Finalized)) \<longrightarrow>
        (\<exists>w2. airdrop_attempt_kit rpc pk amt r m s =
           (Inl (new_Error timeout_message),
            \<lparr>world = w2,
             trace = trace s @ [Log_attempt amt (r + 1) m, Request_airdrop pk amt] @
                     concat (replicate 30 [Poll_sleep 1000, Status_query sig])\<rparr>))"
    using attempt_kit_unconfirmed [of rpc pk amt s sig] by blast
  have c: "\<forall>e w. requestAirdrop rpc pk amt (world s) = (Inl e, w) \<longrightarrow>
        airdrop_attempt_kit rpc pk amt r m s =
          (Inl e, \<lparr>world = w, trace = trace s @ [Log_attempt amt (r + 1) m, Request_airdrop pk amt]\<rparr>)"
    using attempt_kit_rejected [of rpc pk amt s] by blast
  have d: "(\<forall>w. \<exists>sg w1. requestAirdrop rpc pk amt w = (Inr sg, w1)) \<and>
    (\<forall>sg w1. fst (getSignatureStatuses rpc sg w1) \<noteq> Inr (Some Confirmed) \<and>
             fst (getSignatureStatuses rpc sg w1) \<noteq> Inr (Some Finalized)) \<longrightarrow>
        fst (airdropWithRetry_kit rpc pk amt 3 s) = Throw (new_Error timeout_message)"
    using driver_all_timeouts [of rpc pk amt s] by blast
  have e: "message (new_Error timeout_message) = Some timeout_message"
    "solana_code (new_Error timeout_message) = None"
    by (simp_all add: new_Error_def)
  from a b c d e timeout_not_rate_limited show ?thesis by blast
qed


theorem funding_poll_timeout_witness:
  "(\<exists>w2. airdrop_attempt_kit
      (script_rpc (\<lambda>n. Inr ''sig'') (\<lambda>n. Inr (Some Processed)) (\<lambda>n. Inr 0))
      (Pubkey 1) 10000000000 0 3 \<lparr>world = 0, trace = []\<rparr> =
     (Inl (new_Error timeout_message),
      \<lparr>world = w2,
       trace = [Log_attempt 10000000000 1 3, Request_airdrop (Pubkey 1) 10000000000] @
               concat (replicate 30 [Poll_sleep 1000, Status_query ''sig''])\<rparr>)) \<and>
   airdrop_attempt_kit
      (script_rpc (\<lambda>n. Inl (new_Error ''Invalid params'')) (\<lambda>n. Inr (Some Processed)) (\<lambda>n. Inr 0))
      (Pubkey 1) 10000000000 0 3 \<lparr>world = 0, trace = []\<rparr> =
     (Inl (new_Error ''Invalid params''),
      \<lparr>world = 1, trace = [Log_attempt 10000000000 1 3, Request_airdrop (Pubkey 1) 10000000000]\<rparr>) \<and>
   fst (airdropWithRetry_kit
      (script_rpc (\<lambda>n. Inr ''sig'') (\<lambda>n. Inr (Some Processed)) (\<lambda>n. Inr 0))
      (Pubkey 1) 10000000000 3 \<lparr>world = 0, trace = []\<rparr>) = Throw (new_Error timeout_message)"
proof -
  let ?rpc = "script_rpc (\<lambda>n. Inr ''sig'') (\<lambda>n. Inr (Some Processed)) (\<lambda>n. Inr 0)"
  let ?rej = "script_rpc (\<lambda>n. Inl (new_Error ''Invalid params'')) (\<lambda>n. Inr (Some Processed)) (\<lambda>n. Inr 0)"
  let ?s0 = "\<lparr>world = 0 :: nat, trace = []\<rparr>"
  note t = funding_poll_timeout [of ?rpc "''sig''" ?s0 "Pubkey 1" 10000000000 0 3]
  note u = funding_poll_timeout [of ?rej "''sig''" ?s0 "Pubkey 1" 10000000000 0 3]
  have 1: "\<exists>w2. airdrop_attempt_kit ?rpc (Pubkey 1) 10000000000 0 3 ?s0 =
     (Inl (new_Error timeout_message),
      \<lparr>world = w2,
       trace = [Log_attempt 10000000000 1 3, Request_airdrop (Pubkey 1) 10000000000] @
               concat (replicate 30 [Poll_sleep 1000, Status_query ''sig''])\<rparr>)"
    using t [THEN conjunct2, THEN conjunct1, rule_format, of 1]
      never_confirmed_polled [of ?rpc "''sig''" 30 1]
    by (simp add: script_rpc_def)
  have 2: "airdrop_attempt_kit ?rej (Pubkey 1) 10000000000 0 3 ?s0 =
     (Inl (new_Error ''Invalid params''),
      \<lparr>world = 1, trace = [Log_attempt 10000000000 1 3, Request_airdrop (Pubkey 1) 10000000000]\<rparr>)"
    using u [THEN conjunct2, THEN conjunct2, THEN conjunct1, rule_format, of "new_Error ''Invalid params''" 1]
    by (simp add: script_rpc_def)
  have 3: "fst (airdropWithRetry_kit ?rpc (Pubkey 1) 10000000000 3 ?s0) = Throw (new_Error timeout_message)"
    using t [THEN conjunct2, THEN conjunct2, THEN conjunct2, THEN conjunct1]
    by (simp add: script_rpc_def)
  from 1 2 3 show ?thesis by blast
qed

section \<open>Reads, submission and the funding step: the properties\<close>

lemmas prog_defs = andThen_def try_catch_def call_def ret_def throw_def say_def process_exit_def

text \<open>
  C6. The existence probe never raises: for every address and every answer of the
  boundary it returns a boolean, which is false when the lookup throws, false when the
  boundary reports a null value and true exactly when the boundary reports an account.
\<close>

theorem accountExists_never_raises:
  "accountExists rpc address s =
     (Return (case fst (getAccountInfo rpc address (world s)) of
                Inl e \<Rightarrow> False
              | Inr None \<Rightarrow> False
              | Inr (Some info) \<Rightarrow> True),
      \<lparr>world = snd (getAccountInfo rpc address (world s)), trace = trace s\<rparr>)"
  by (auto simp: accountExists_def prog_defs pstate_norm split: prod.splits sum.splits option.splits)

text \<open>
  C7. The balance reader never raises and returns a non-negative integer: zero when the
  lookup throws (an account that does not exist included), zero when the response has no
  value, and otherwise the amount the boundary reports, as an integer of arbitrary size.
\<close>

theorem getTokenBalance_never_raises:
  "getTokenBalance rpc address s =
     (Return (case fst (getTokenAccountBalance rpc address (world s)) of
                Inl e \<Rightarrow> 0
              | Inr None \<Rightarrow> 0
              | Inr (Some amount) \<Rightarrow> int amount),
      \<lparr>world = snd (getTokenAccountBalance rpc address (world s)), trace = trace s\<rparr>) \<and>
   (\<exists>n. fst (getTokenBalance rpc address s) = Return (int n))"
  by (auto simp: getTokenBalance_def prog_defs pstate_norm split: prod.splits sum.splits option.splits)

lemma expired_error_facts:
  "\<not> isSolanaError (new_Error blockhash_expired_message) c"
  "message (new_Error blockhash_expired_message) = Some blockhash_expired_message"
  by (simp_all add: isSolanaError_def new_Error_def)

text \<open>
  C2. When the boundary answers a submission with the block-height-exceeded error, the
  submitter ends with the dedicated blockhash-expired error (status EXPIRED in the spec's
  words), which is not the boundary's error, and it does not return a signature (status
  CONFIRMED). Any other error of the submission is thrown on unchanged, as is an error of
  the blockhash query or of signing; a submission that succeeds returns the signature.
\<close>

theorem sendAndConfirmTransaction_outcomes:
  "(\<forall>bh w1 signedTx w2 e w3.
      getLatestBlockhash rpc (world s) = (Inr bh, w1) \<and>
      signTransactionMessageWithSigners rpc
        \<lparr>fee_payer = feePayer, lifetime = bh, instructions = instrs\<rparr> w1 = (Inr signedTx, w2) \<and>
      sendAndConfirmFn signedTx w2 = (Inl e, w3) \<and>
      isSolanaError e SOLANA_ERROR_BLOCK_HEIGHT_EXCEEDED \<longrightarrow>
        sendAndConfirmTransaction sendAndConfirmFn rpc instrs feePayer extra s =
          (Throw (new_Error blockhash_expired_message),
           \<lparr>world = w3, trace = trace s @ [Send_transaction instrs]\<rparr>) \<and>
        terminal_status (fst (sendAndConfirmTransaction sendAndConfirmFn rpc instrs feePayer extra s)) =
          EXPIRED \<and>
        new_Error blockhash_expired_message \<noteq> e) \<and>
   (\<forall>bh w1 signedTx w2 e w3.
      getLatestBlockhash rpc (world s) = (Inr bh, w1) \<and>
      signTransactionMessageWithSigners rpc
        \<lparr>fee_payer = feePayer, lifetime = bh, instructions = instrs\<rparr> w1 = (Inr signedTx, w2) \<and>
      sendAndConfirmFn signedTx w2 = (Inl e, w3) \<and>
      \<not> isSolanaError e SOLANA_ERROR_BLOCK_HEIGHT_EXCEEDED \<longrightarrow>
        sendAndConfirmTransaction sendAndConfirmFn rpc instrs feePayer extra s =
          (Throw e, \<lparr>world = w3, trace = trace s @ [Send_transaction instrs]\<rparr>)) \<and>
   (\<forall>bh w1 signedTx w2 w3.
      getLatestBlockhash rpc (world s) = (Inr bh, w1) \<and>
      signTransactionMessageWithSigners rpc
        \<lparr>fee_payer = feePayer, lifetime = bh, instructions = instrs\<rparr> w1 = (Inr signedTx, w2) \<and>
      sendAndConfirmFn signedTx w2 = (Inr (), w3) \<longrightarrow>
        sendAndConfirmTransaction sendAndConfirmFn rpc instrs feePayer extra s =
          (Return (tx_signature signedTx),
           \<lparr>world = w3, trace = trace s @ [Send_transaction instrs]\<rparr>)) \<and>
   (\<forall>e w1. getLatestBlockhash rpc (world s) = (Inl e, w1) \<longrightarrow>
        sendAndConfirmTransaction sendAndConfirmFn rpc instrs feePayer extra s =
          (Throw e, \<lparr>world = w1, trace = trace s\<rparr>)) \<and>
   (\<forall>bh w1 e w2.
      getLatestBlockhash rpc (world s) = (Inr bh, w1) \<and>
      signTransactionMessageWithSigners rpc
        \<lparr>fee_payer = feePayer, lifetime = bh, instructions = instrs\<rparr> w1 = (Inl e, w2) \<longrightarrow>
        sendAndConfirmTransaction sendAndConfirmFn rpc instrs feePayer extra s =
          (Throw e, \<lparr>world = w2, trace = trace s\<rparr>))"
  by (auto simp: sendAndConfirmTransaction_def prog_defs pstate_norm Let_def terminal_status_def
      getSignatureFromTransaction_def expired_error_facts)

theorem sendAndConfirmTransaction_outcomes_witness:
  "sendAndConfirmTransaction (\<lambda>tx n. (Inl (JsError (Some 1) (Some ''block height exceeded'')), n + 1))
     (script_rpc (\<lambda>n. Inr ''sig'') (\<lambda>n. Inr None) (\<lambda>n. Inr 0))
     [MintTo (Pubkey 2) (Ata (Pubkey 2) (Pubkey 1)) (Pubkey 1) 5] (Pubkey 1) []
     \<lparr>world = 0, trace = []\<rparr> =
   (Throw (new_Error blockhash_expired_message),
    \<lparr>world = 2, trace = [Send_transaction [MintTo (Pubkey 2) (Ata (Pubkey 2) (Pubkey 1)) (Pubkey 1) 5]]\<rparr>) \<and>
   terminal_status (fst (sendAndConfirmTransaction
     (\<lambda>tx n. (Inl (JsError (Some 1) (Some ''block height exceeded'')), n + 1))
     (script_rpc (\<lambda>n. Inr ''sig'') (\<lambda>n. Inr None) (\<lambda>n. Inr 0))
     [MintTo (Pubkey 2) (Ata (Pubkey 2) (Pubkey 1)) (Pubkey 1) 5] (Pubkey 1) []
     \<lparr>world = 0, trace = []\<rparr>)) = EXPIRED \<and>
   sendAndConfirmTransaction (\<lambda>tx n. (Inl ledger_rejected, n + 1))
     (script_rpc (\<lambda>n. Inr ''sig'') (\<lambda>n. Inr None) (\<lambda>n. Inr 0))
     [MintTo (Pubkey 2) (Ata (Pubkey 2) (Pubkey 1)) (Pubkey 1) 5] (Pubkey 1) []
     \<lparr>world = 0, trace = []\<rparr> =
   (Throw ledger_rejected,
    \<lparr>world = 2, trace = [Send_transaction [MintTo (Pubkey 2) (Ata (Pubkey 2) (Pubkey 1)) (Pubkey 1) 5]]\<rparr>) \<and>
   sendAndConfirmTransaction (\<lambda>tx n. (Inr (), n + 1))
     (script_rpc (\<lambda>n. Inr ''sig'') (\<lambda>n. Inr None) (\<lambda>n. Inr 0))
     [MintTo (Pubkey 2) (Ata (Pubkey 2) (Pubkey 1)) (Pubkey 1) 5] (Pubkey 1) []
     \<lparr>world = 0, trace = []\<rparr> =
   (Return ''signature'',
    \<lparr>world = 2, trace = [Send_transaction [MintTo (Pubkey 2) (Ata (Pubkey 2) (Pubkey 1)) (Pubkey 1) 5]]\<rparr>) \<and>
   sendAndConfirmTransaction (\<lambda>tx n. (Inr (), n + 1))
     ((script_rpc (\<lambda>n. Inr ''sig'') (\<lambda>n. Inr None) (\<lambda>n. Inr 0))
        \<lparr>getLatestBlockhash := \<lambda>n. (Inl (new_Error ''fetch failed''), n + 1)\<rparr>)
     [MintTo (Pubkey 2) (Ata (Pubkey 2) (Pubkey 1)) (Pubkey 1) 5] (Pubkey 1) []
     \<lparr>world = 0, trace = []\<rparr> =
   (Throw (new_Error ''fetch failed''), \<lparr>world = 1, trace = []\<rparr>) \<and>
   sendAndConfirmTransaction (\<lambda>tx n. (Inr (), n + 1))
     ((script_rpc (\<lambda>n. Inr ''sig'') (\<lambda>n. Inr None) (\<lambda>n. Inr 0))
        \<lparr>signTransactionMessageWithSigners := \<lambda>m n. (Inl (new_Error ''missing signer''), n)\<rparr>)
     [MintTo (Pubkey 2) (Ata (Pubkey 2) (Pubkey 1)) (Pubkey 1) 5] (Pubkey 1) []
     \<lparr>world = 0, trace = []\<rparr> =
   (Throw (new_Error ''missing signer''), \<lparr>world = 1, trace = []\<rparr>)"
proof -
  let ?rpc = "script_rpc (\<lambda>n. Inr ''sig'') (\<lambda>n. Inr None) (\<lambda>n. Inr 0)"
  let ?ixs = "[MintTo (Pubkey 2) (Ata (Pubkey 2) (Pubkey 1)) (Pubkey 1) 5]"
  let ?s0 = "\<lparr>world = 0 :: nat, trace = []\<rparr>"
  let ?bh = "(''blockhash'', 150 :: nat)"
  let ?tx = "Signed_tx \<lparr>fee_payer = Pubkey 1, lifetime = ?bh, instructions = ?ixs\<rparr> [Pubkey 1] ''signature''"
  let ?exp = "\<lambda>tx n :: nat. (Inl (JsError (Some 1) (Some ''block height exceeded'')) :: js_error + unit, n + 1)"
  let ?rej = "\<lambda>tx n :: nat. (Inl ledger_rejected :: js_error + unit, n + 1)"
  let ?ok = "\<lambda>tx n :: nat. (Inr () :: js_error + unit, n + 1)"
  have 1: "sendAndConfirmTransaction ?exp ?rpc ?ixs (Pubkey 1) [] ?s0 =
      (Throw (new_Error blockhash_expired_message), \<lparr>world = 2, trace = [Send_transaction ?ixs]\<rparr>) \<and>
     terminal_status (fst (sendAndConfirmTransaction ?exp ?rpc ?ixs (Pubkey 1) [] ?s0)) = EXPIRED"
    using sendAndConfirmTransaction_outcomes [of ?rpc ?s0 "Pubkey 1" ?ixs ?exp "[]", THEN conjunct1,
        rule_format, of ?bh 1 ?tx 1 "JsError (Some 1) (Some ''block height exceeded'')" 2]
    by (simp add: script_rpc_def isSolanaError_def SOLANA_ERROR_BLOCK_HEIGHT_EXCEEDED_def
        terminal_status_def)
  have 2: "sendAndConfirmTransaction ?rej ?rpc ?ixs (Pubkey 1) [] ?s0 =
      (Throw ledger_rejected, \<lparr>world = 2, trace = [Send_transaction ?ixs]\<rparr>)"
    using sendAndConfirmTransaction_outcomes [of ?rpc ?s0 "Pubkey 1" ?ixs ?rej "[]", THEN conjunct2,
        THEN conjunct1, rule_format, of ?bh 1 ?tx 1 ledger_rejected 2]
    by (simp add: script_rpc_def isSolanaError_def SOLANA_ERROR_BLOCK_HEIGHT_EXCEEDED_def
        ledger_rejected_def)
  have 3: "sendAndConfirmTransaction ?ok ?rpc ?ixs (Pubkey 1) [] ?s0 =
      (Return ''signature'', \<lparr>world = 2, trace = [Send_transaction ?ixs]\<rparr>)"
    using sendAndConfirmTransaction_outcomes [of ?rpc ?s0 "Pubkey 1" ?ixs ?ok "[]", THEN conjunct2,
        THEN conjunct2, THEN conjunct1, rule_format, of ?bh 1 ?tx 1 2]
    by (simp add: script_rpc_def)
  let ?down = "?rpc\<lparr>getLatestBlockhash := \<lambda>n. (Inl (new_Error ''fetch failed''), n + 1)\<rparr>"
  let ?unsigned =
    "?rpc\<lparr>signTransactionMessageWithSigners := \<lambda>m n. (Inl (new_Error ''missing signer''), n)\<rparr>"
  have 4: "sendAndConfirmTransaction ?ok ?down ?ixs (Pubkey 1) [] ?s0 =
      (Throw (new_Error ''fetch failed''), \<lparr>world = 1, trace = []\<rparr>)"
    using sendAndConfirmTransaction_outcomes [of ?down ?s0 "Pubkey 1" ?ixs ?ok "[]", THEN conjunct2,
        THEN conjunct2, THEN conjunct2, THEN conjunct1, rule_format,
        of "new_Error ''fetch failed''" 1]
    by (simp add: script_rpc_def)
  have 5: "sendAndConfirmTransaction ?ok ?unsigned ?ixs (Pubkey 1) [] ?s0 =
      (Throw (new_Error ''missing signer''), \<lparr>world = 1, trace = []\<rparr>)"
    using sendAndConfirmTransaction_outcomes [of ?unsigned ?s0 "Pubkey 1" ?ixs ?ok "[]", THEN conjunct2,
        THEN conjunct2, THEN conjunct2, THEN conjunct2, rule_format,
        of ?bh 1 "new_Error ''missing signer''" 1]
    by (simp add: script_rpc_def)
  from 1 2 3 4 5 show ?thesis by blast
qed

lemma poll_prefix: "prefix (trace s) (trace (snd (poll_confirmation rpc sig i s)))"
  using poll_bound_aux [of i "30 - i" rpc sig s] by (auto simp: prefix_def)

lemma attempt_kit_trace:
  "\<exists>t. trace (snd (airdrop_attempt_kit rpc pk amt r m s)) =
       trace s @ [Log_attempt amt (r + 1) m, Request_airdrop pk amt] @ t"
proof (cases "requestAirdrop rpc pk amt (world s)")
  case (Pair res w)
  let ?s0 = "\<lparr>world = w, trace = trace s @ [Log_attempt amt (r + 1) m, Request_airdrop pk amt]\<rparr>"
  show ?thesis
  proof (cases res)
    case (Inl e)
    with Pair show ?thesis by (simp add: airdrop_attempt_kit_def Let_def pstate_norm)
  next
    case (Inr sig)
    obtain b s2 where p: "poll_confirmation rpc sig 0 ?s0 = (b, s2)"
      by (cases "poll_confirmation rpc sig 0 ?s0")
    from poll_prefix [of ?s0 rpc sig 0] p obtain t where "trace s2 = trace ?s0 @ t"
      by (auto simp: prefix_def)
    with Pair Inr p show ?thesis
      by (cases b) (simp_all add: airdrop_attempt_kit_def Let_def pstate_norm)
  qed
qed

lemma attempt_raw_trace:
  "\<exists>t. trace (snd (airdrop_attempt_raw rpc pk amt r m s)) =
       trace s @ [Log_attempt amt (r + 1) m, Request_airdrop pk amt] @ t"
  by (auto simp: airdrop_attempt_raw_def Let_def pstate_norm split: prod.splits sum.splits)

lemma attempt_kit_prefix: "airdrop_attempt_kit rpc pk amt r m s = (res, s1) \<Longrightarrow> prefix (trace s) (trace s1)"
  using attempt_kit_trace [of rpc pk amt r m s] by (auto simp: prefix_def)

lemma attempt_raw_prefix: "airdrop_attempt_raw rpc pk amt r m s = (res, s1) \<Longrightarrow> prefix (trace s) (trace s1)"
  using attempt_raw_trace [of rpc pk amt r m s] by (auto simp: prefix_def)

lemma prefix_emit: "prefix t (trace s) \<Longrightarrow> prefix t (trace (emit ev s))"
  by (auto simp: prefix_def pstate_norm)

lemma prefix_backoff: "prefix t (trace s) \<Longrightarrow> prefix t (trace (backoff r s))"
  by (auto simp: prefix_def backoff_def Let_def pstate_norm)

lemma loop_kit_prefix:
  "prefix (trace s) (trace (snd (airdrop_loop_kit rpc pk amt m r s)))"
proof (induction rpc pk amt m r s rule: airdrop_loop_kit.induct)
  case (1 rpc pk amt m r s)
  show ?case
  proof (cases "r < m")
    case False
    then show ?thesis by (subst airdrop_loop_kit.simps) simp
  next
    case True
    obtain res s1 where a: "airdrop_attempt_kit rpc pk amt r m s = (res, s1)"
      by (cases "airdrop_attempt_kit rpc pk amt r m s")
    note p = attempt_kit_prefix [OF a]
    show ?thesis
    proof (cases res)
      case (Inr sig)
      with True a p show ?thesis by (subst airdrop_loop_kit.simps) simp
    next
      case (Inl e)
      show ?thesis
      proof (cases "rate_limited_kit e")
        case rl: True
        from "1.IH"(1) [OF True a [symmetric] Inl rl]
        have "prefix (trace (backoff (r + 1) s1))
                (trace (snd (airdrop_loop_kit rpc pk amt m (r + 1) (backoff (r + 1) s1))))" .
        with prefix_backoff [OF p, of "r + 1"] have
          "prefix (trace s) (trace (snd (airdrop_loop_kit rpc pk amt m (r + 1) (backoff (r + 1) s1))))"
          by (rule prefix_order.trans)
        with True a Inl rl show ?thesis by (subst airdrop_loop_kit.simps) simp
      next
        case nrl: False
        show ?thesis
        proof (cases "m \<le> r + 1")
          case ex: True
          with True a Inl nrl prefix_emit [OF p] show ?thesis
            by (subst airdrop_loop_kit.simps) simp
        next
          case more: False
          from "1.IH"(2) [OF True a [symmetric] Inl nrl more]
          have "prefix (trace (emit (Warn_retrying (message e)) s1))
                  (trace (snd (airdrop_loop_kit rpc pk amt m (r + 1) (emit (Warn_retrying (message e)) s1))))" .
          with prefix_emit [OF p] have
            "prefix (trace s) (trace (snd (airdrop_loop_kit rpc pk amt m (r + 1) (emit (Warn_retrying (message e)) s1))))"
            by (rule prefix_order.trans)
          with True a Inl nrl more show ?thesis by (subst airdrop_loop_kit.simps) simp
        qed
      qed
    qed
  qed
qed

lemma loop_kit_prefix_trans:
  "prefix t (trace s) \<Longrightarrow> prefix t (trace (snd (airdrop_loop_kit rpc pk amt m r s)))"
  using loop_kit_prefix [of s rpc pk amt m r] prefix_order.trans by blast

lemma loop_raw_prefix_aux:
  "m - r = k \<Longrightarrow> prefix (trace s) (trace (snd (airdrop_loop_raw rpc pk amt m r s)))"
proof (induction k arbitrary: r s)
  case 0
  then have "\<not> r < m" by simp
  then show ?case by (subst airdrop_loop_raw.simps) simp
next
  case (Suc k)
  then have lt: "r < m" by simp
  from Suc.prems have k: "m - (r + 1) = k" by simp
  obtain res s1 where a: "airdrop_attempt_raw rpc pk amt r m s = (res, s1)"
    by (cases "airdrop_attempt_raw rpc pk amt r m s")
  note p = attempt_raw_prefix [OF a]
  have rec: "prefix (trace s) (trace s2) \<Longrightarrow>
      prefix (trace s) (trace (snd (airdrop_loop_raw rpc pk amt m (r + 1) s2)))" for s2
    using Suc.IH [OF k, of s2] prefix_order.trans by blast
  show ?case
  proof (cases res)
    case (Inr sig)
    with lt a p show ?thesis by (subst airdrop_loop_raw.simps) simp
  next
    case (Inl e)
    show ?thesis
    proof (cases "rate_limited_raw e")
      case None
      with lt a p Inl show ?thesis by (subst airdrop_loop_raw.simps) simp
    next
      case (Some b)
      show ?thesis
      proof (cases b)
        case True
        with lt a Inl Some rec [OF prefix_backoff [OF p, of "r + 1"]] show ?thesis
          by (subst airdrop_loop_raw.simps) simp
      next
        case False
        with lt a Inl Some rec [OF prefix_emit [OF p, of "Warn_retrying (message e)"]]
          prefix_emit [OF p, of Error_max_retries]
        show ?thesis
          by (subst airdrop_loop_raw.simps) simp
      qed
    qed
  qed
qed

lemma loop_raw_prefix_trans:
  "prefix t (trace s) \<Longrightarrow> prefix t (trace (snd (airdrop_loop_raw rpc pk amt m r s)))"
  using loop_raw_prefix_aux [OF refl, of s rpc pk amt m r] prefix_order.trans by blast

lemma kit_first_request:
  assumes "0 < m"
  shows "prefix (trace s @ [Log_attempt amt 1 m, Request_airdrop pk amt])
           (trace (snd (airdropWithRetry_kit rpc pk amt m s)))"
proof -
  let ?P = "trace s @ [Log_attempt amt 1 m, Request_airdrop pk amt]"
  obtain res s1 where a: "airdrop_attempt_kit rpc pk amt 0 m s = (res, s1)"
    by (cases "airdrop_attempt_kit rpc pk amt 0 m s")
  from attempt_kit_trace [of rpc pk amt 0 m s] a have p: "prefix ?P (trace s1)"
    by (auto simp: prefix_def)
  show ?thesis
    unfolding airdropWithRetry_kit_def
    using assms a p prefix_emit [OF p] loop_kit_prefix_trans [OF prefix_backoff [OF p]]
      loop_kit_prefix_trans [OF prefix_emit [OF p]]
    by (subst airdrop_loop_kit.simps) (auto split: sum.splits)
qed

lemma raw_first_request:
  assumes "0 < m"
  shows "prefix (trace s @ [Log_attempt amt 1 m, Request_airdrop pk amt])
           (trace (snd (airdropWithRetry_raw rpc pk amt m s)))"
proof -
  let ?P = "trace s @ [Log_attempt amt 1 m, Request_airdrop pk amt]"
  obtain res s1 where a: "airdrop_attempt_raw rpc pk amt 0 m s = (res, s1)"
    by (cases "airdrop_attempt_raw rpc pk amt 0 m s")
  from attempt_raw_trace [of rpc pk amt 0 m s] a have p: "prefix ?P (trace s1)"
    by (auto simp: prefix_def)
  show ?thesis
    unfolding airdropWithRetry_raw_def
    using assms a p prefix_emit [OF p] loop_raw_prefix_trans [OF prefix_backoff [OF p]]
      loop_raw_prefix_trans [OF prefix_emit [OF p]]
    by (subst airdrop_loop_raw.simps) (auto split: sum.splits option.splits bool.splits)
qed

lemma andThen_appends:
  assumes "prefix t (trace (snd (m s)))"
    and "\<And>x s1. prefix t (trace s1) \<Longrightarrow> prefix t (trace (snd (f x s1)))"
  shows "prefix t (trace (snd (andThen m f s)))"
  using assms by (auto simp: andThen_def split: prod.splits outcome.splits)

lemma try_catch_appends:
  assumes "prefix t (trace (snd (m s)))"
    and "\<And>e s1. prefix t (trace s1) \<Longrightarrow> prefix t (trace (snd (h e s1)))"
  shows "prefix t (trace (snd (try_catch m h s)))"
  using assms by (auto simp: try_catch_def split: prod.splits outcome.splits)

lemma basic_appends:
  "prefix t (trace s) \<Longrightarrow> prefix t (trace (snd (say ev s)))"
  "prefix t (trace s) \<Longrightarrow> prefix t (trace (snd (call f s)))"
  "prefix t (trace s) \<Longrightarrow> prefix t (trace (snd (ret x s)))"
  "prefix t (trace s) \<Longrightarrow> prefix t (trace (snd (throw e s)))"
  "prefix t (trace s) \<Longrightarrow> prefix t (trace (snd (process_exit c s)))"
  by (auto simp: prog_defs pstate_norm prefix_def split: prod.splits sum.splits)

lemma funding_failed_appends:
  "prefix t (trace s) \<Longrightarrow> prefix t (trace (snd (funding_failed payer e s)))"
  unfolding funding_failed_def
  by (intro andThen_appends basic_appends)

lemma fund_payer_kit_requests:
  assumes "balance < funding_threshold"
  shows "prefix (trace s @ [Log_insufficient, Log_attempt 10000000000 1 3,
                            Request_airdrop payer 10000000000])
           (trace (snd (fund_payer_kit rpc payer balance s)))"
proof -
  have "prefix (trace (emit Log_insufficient s) @ [Log_attempt 10000000000 1 3,
                            Request_airdrop payer 10000000000])
          (trace (snd (airdropWithRetry_kit rpc payer 10000000000 3 (emit Log_insufficient s))))"
    by (rule kit_first_request) simp
  then have a: "prefix (trace s @ [Log_insufficient, Log_attempt 10000000000 1 3,
                            Request_airdrop payer 10000000000])
          (trace (snd (airdropWithRetry_kit rpc payer 10000000000 3 (emit Log_insufficient s))))"
    by (simp add: pstate_norm)
  have "prefix (trace s @ [Log_insufficient, Log_attempt 10000000000 1 3,
                            Request_airdrop payer 10000000000])
      (trace (snd (try_catch
             (andThen (airdropWithRetry_kit rpc payer 10000000000 3)
                (\<lambda>_. andThen (call (getBalance rpc payer))
                   (\<lambda>newBalance. andThen (say (Log_balance_after_airdrop newBalance))
                      (\<lambda>_. if newBalance < funding_threshold
                           then throw (new_Error still_insufficient_message)
                           else ret ()))))
             (funding_failed payer) (emit Log_insufficient s))))"
    by (intro try_catch_appends andThen_appends a funding_failed_appends basic_appends)
       (auto intro: basic_appends)
  then show ?thesis using assms
    by (simp add: fund_payer_kit_def andThen_def say_def)
qed

lemma fund_payer_raw_requests:
  assumes "balance < funding_threshold"
  shows "prefix (trace s @ [Log_insufficient, Log_attempt 10000000000 1 3,
                            Request_airdrop payer 10000000000])
           (trace (snd (fund_payer_raw rpc payer balance s)))"
proof -
  have "prefix (trace (emit Log_insufficient s) @ [Log_attempt 10000000000 1 3,
                            Request_airdrop payer 10000000000])
          (trace (snd (airdropWithRetry_raw rpc payer 10000000000 3 (emit Log_insufficient s))))"
    by (rule raw_first_request) simp
  then have a: "prefix (trace s @ [Log_insufficient, Log_attempt 10000000000 1 3,
                            Request_airdrop payer 10000000000])
          (trace (snd (airdropWithRetry_raw rpc payer 10000000000 3 (emit Log_insufficient s))))"
    by (simp add: pstate_norm)
  have "prefix (trace s @ [Log_insufficient, Log_attempt 10000000000 1 3,
                            Request_airdrop payer 10000000000])
      (trace (snd (try_catch
             (andThen (airdropWithRetry_raw rpc payer 10000000000 3) (\<lambda>_. ret ()))
             (funding_failed payer) (emit Log_insufficient s))))"
    by (intro try_catch_appends andThen_appends a funding_failed_appends basic_appends)
  then show ?thesis using assms
    by (simp add: fund_payer_raw_def andThen_def say_def LAMPORTS_PER_SOL_def)
qed

lemma script_kit_funding_throws:
  assumes "getBalance rpc payer (world s) = (Inr balance, w0)" "balance < funding_threshold"
    "airdropWithRetry_kit rpc payer 10000000000 3
       \<lparr>world = w0, trace = trace s @ [Log_sol_balance balance, Log_insufficient]\<rparr> = (Throw e, s1)"
  shows "script_kit rpc payer s =
     (Exit 1, \<lparr>world = world s1,
               trace = trace s1 @ [Err_airdrop_failed, Err_detail (message e), Err_payer payer,
                                   Err_fund_manually]\<rparr>)"
  using assms
  by (simp add: script_kit_def finish_def main_kit_def fund_payer_kit_def funding_failed_def
      prog_defs pstate_norm)

lemma script_raw_funding_throws:
  assumes "getLatestBlockhash rpc (world s) = (Inr bh, w)"
    "getBalance rpc payer w = (Inr balance, w0)" "balance < funding_threshold"
    "airdropWithRetry_raw rpc payer 10000000000 3
       \<lparr>world = w0, trace = trace s @ [Log_sol_balance balance, Log_insufficient]\<rparr> = (Throw e, s1)"
  shows "script_raw rpc payer s =
     (Exit 1, \<lparr>world = world s1,
               trace = trace s1 @ [Err_airdrop_failed, Err_detail (message e), Err_payer payer,
                                   Err_fund_manually]\<rparr>)"
  using assms
  by (simp add: script_raw_def finish_def main_raw_def fund_payer_raw_def funding_failed_def
      prog_defs pstate_norm LAMPORTS_PER_SOL_def)

text \<open>
  The funding decision. The funding step is skipped, with no effect at all, when the
  payer's balance is at least 10000000 base units (0.01 native units), and when the
  balance is below that it starts by requesting an airdrop of 10000000000 base units
  (10 native units) for the payer; this holds for every balance and for both variants.
  When the retrying airdrop throws, the script prints the failure, the error's message
  and the payer's address, and exits with code 1 without doing anything more.
\<close>

theorem funding_decision:
  "(funding_threshold \<le> balance \<longrightarrow>
      fund_payer_kit rpc payer balance s = (Return (), s) \<and>
      fund_payer_raw rpc payer balance s = (Return (), s)) \<and>
   (balance < funding_threshold \<longrightarrow>
      prefix (trace s @ [Log_insufficient, Log_attempt 10000000000 1 3,
                         Request_airdrop payer 10000000000])
        (trace (snd (fund_payer_kit rpc payer balance s))) \<and>
      prefix (trace s @ [Log_insufficient, Log_attempt 10000000000 1 3,
                         Request_airdrop payer 10000000000])
        (trace (snd (fund_payer_raw rpc payer balance s)))) \<and>
   (\<forall>w0 e s1.
      getBalance rpc payer (world s) = (Inr balance, w0) \<and> balance < funding_threshold \<and>
      airdropWithRetry_kit rpc payer 10000000000 3
        \<lparr>world = w0, trace = trace s @ [Log_sol_balance balance, Log_insufficient]\<rparr> =
        (Throw e, s1) \<longrightarrow>
      script_kit rpc payer s =
        (Exit 1, \<lparr>world = world s1,
                  trace = trace s1 @ [Err_airdrop_failed, Err_detail (message e), Err_payer payer,
                                      Err_fund_manually]\<rparr>)) \<and>
   (\<forall>bh w w0 e s1.
      getLatestBlockhash rpc (world s) = (Inr bh, w) \<and>
      getBalance rpc payer w = (Inr balance, w0) \<and> balance < funding_threshold \<and>
      airdropWithRetry_raw rpc payer 10000000000 3
        \<lparr>world = w0, trace = trace s @ [Log_sol_balance balance, Log_insufficient]\<rparr> =
        (Throw e, s1) \<longrightarrow>
      script_raw rpc payer s =
        (Exit 1, \<lparr>world = world s1,
                  trace = trace s1 @ [Err_airdrop_failed, Err_detail (message e), Err_payer payer,
                                      Err_fund_manually]\<rparr>)) \<and>
   funding_threshold = 10000000"
proof -
  have a: "funding_threshold \<le> balance \<longrightarrow>
      fund_payer_kit rpc payer balance s = (Return (), s) \<and>
      fund_payer_raw rpc payer balance s = (Return (), s)"
    by (simp add: fund_payer_kit_def fund_payer_raw_def ret_def)
  show ?thesis
    using a fund_payer_kit_requests [of balance s payer rpc]
      fund_payer_raw_requests [of balance s payer rpc]
      script_kit_funding_throws [of rpc payer s balance]
      script_raw_funding_throws [of rpc s _ _ payer balance]
    by (intro conjI allI impI) (auto simp: funding_threshold_def)
qed

lemma not_rate_limited_disabled:
  "\<not> rate_limited_kit (new_Error ''airdrop disabled'')"
  "rate_limited_raw (new_Error ''airdrop disabled'') = Some False"
  by (simp_all add: rate_limited_kit_def rate_limited_raw_def new_Error_def rate_limited_msg_def)

theorem funding_decision_witness:
  "fund_payer_kit (script_rpc (\<lambda>n. Inl (new_Error ''airdrop disabled'')) (\<lambda>n. Inr None) (\<lambda>n. Inr 0))
     (Pubkey 1) 20000000 \<lparr>world = 1, trace = [Log_sol_balance 20000000]\<rparr> =
     (Return (), \<lparr>world = 1, trace = [Log_sol_balance 20000000]\<rparr>) \<and>
   fund_payer_raw (script_rpc (\<lambda>n. Inl (new_Error ''airdrop disabled'')) (\<lambda>n. Inr None) (\<lambda>n. Inr 0))
     (Pubkey 1) 20000000 \<lparr>world = 1, trace = [Log_sol_balance 20000000]\<rparr> =
     (Return (), \<lparr>world = 1, trace = [Log_sol_balance 20000000]\<rparr>) \<and>
   prefix [Log_sol_balance 0, Log_insufficient, Log_attempt 10000000000 1 3,
           Request_airdrop (Pubkey 1) 10000000000]
     (trace (snd (fund_payer_kit
        (script_rpc (\<lambda>n. Inl (new_Error ''airdrop disabled'')) (\<lambda>n. Inr None) (\<lambda>n. Inr 0))
        (Pubkey 1) 0 \<lparr>world = 1, trace = [Log_sol_balance 0]\<rparr>))) \<and>
   prefix [Log_sol_balance 0, Log_insufficient, Log_attempt 10000000000 1 3,
           Request_airdrop (Pubkey 1) 10000000000]
     (trace (snd (fund_payer_raw
        (script_rpc (\<lambda>n. Inl (new_Error ''airdrop disabled'')) (\<lambda>n. Inr None) (\<lambda>n. Inr 0))
        (Pubkey 1) 0 \<lparr>world = 1, trace = [Log_sol_balance 0]\<rparr>))) \<and>
   script_kit (script_rpc (\<lambda>n. Inl (new_Error ''airdrop disabled'')) (\<lambda>n. Inr None) (\<lambda>n. Inr 0))
     (Pubkey 1) \<lparr>world = 0, trace = []\<rparr> =
     (Exit 1,
      \<lparr>world = 4,
       trace = [Log_sol_balance 0, Log_insufficient,
                Log_attempt 10000000000 1 3, Request_airdrop (Pubkey 1) 10000000000,
                Warn_retrying (Some ''airdrop disabled''),
                Log_attempt 10000000000 2 3, Request_airdrop (Pubkey 1) 10000000000,
                Warn_retrying (Some ''airdrop disabled''),
                Log_attempt 10000000000 3 3, Request_airdrop (Pubkey 1) 10000000000,
                Error_max_retries,
                Err_airdrop_failed, Err_detail (Some ''airdrop disabled''), Err_payer (Pubkey 1),
                Err_fund_manually]\<rparr>) \<and>
   script_raw (script_rpc (\<lambda>n. Inl (new_Error ''airdrop disabled'')) (\<lambda>n. Inr None) (\<lambda>n. Inr 0))
     (Pubkey 1) \<lparr>world = 0, trace = []\<rparr> =
     (Exit 1,
      \<lparr>world = 5,
       trace = [Log_sol_balance 0, Log_insufficient,
                Log_attempt 10000000000 1 3, Request_airdrop (Pubkey 1) 10000000000,
                Warn_retrying (Some ''airdrop disabled''),
                Log_attempt 10000000000 2 3, Request_airdrop (Pubkey 1) 10000000000,
                Warn_retrying (Some ''airdrop disabled''),
                Log_attempt 10000000000 3 3, Request_airdrop (Pubkey 1) 10000000000,
                Error_max_retries,
                Err_airdrop_failed, Err_detail (Some ''airdrop disabled''), Err_payer (Pubkey 1),
                Err_fund_manually]\<rparr>)"
proof -
  let ?rpc = "script_rpc (\<lambda>n. Inl (new_Error ''airdrop disabled'')) (\<lambda>n. Inr None) (\<lambda>n. Inr 0)"
  let ?pk = "Pubkey 1"
  let ?e = "new_Error ''airdrop disabled''"
  let ?run = "[Log_sol_balance 0, Log_insufficient,
                Log_attempt 10000000000 1 3, Request_airdrop ?pk 10000000000,
                Warn_retrying (Some ''airdrop disabled''),
                Log_attempt 10000000000 2 3, Request_airdrop ?pk 10000000000,
                Warn_retrying (Some ''airdrop disabled''),
                Log_attempt 10000000000 3 3, Request_airdrop ?pk 10000000000,
                Error_max_retries]"
  note ev = airdropWithRetry_kit_def airdropWithRetry_raw_def airdrop_loop_kit.simps
    airdrop_loop_raw.simps airdrop_attempt_kit_def airdrop_attempt_raw_def script_rpc_def
    Let_def pstate_norm not_rate_limited_disabled funding_threshold_def
  have 1: "fund_payer_kit ?rpc ?pk 20000000 \<lparr>world = 1, trace = [Log_sol_balance 20000000]\<rparr> =
       (Return (), \<lparr>world = 1, trace = [Log_sol_balance 20000000]\<rparr>) \<and>
     fund_payer_raw ?rpc ?pk 20000000 \<lparr>world = 1, trace = [Log_sol_balance 20000000]\<rparr> =
       (Return (), \<lparr>world = 1, trace = [Log_sol_balance 20000000]\<rparr>)"
    using funding_decision [of 20000000 ?rpc ?pk "\<lparr>world = 1, trace = [Log_sol_balance 20000000]\<rparr>",
        THEN conjunct1]
    by (simp add: funding_threshold_def)
  have 2: "prefix [Log_sol_balance 0, Log_insufficient, Log_attempt 10000000000 1 3,
           Request_airdrop ?pk 10000000000]
     (trace (snd (fund_payer_kit ?rpc ?pk 0 \<lparr>world = 1, trace = [Log_sol_balance 0]\<rparr>))) \<and>
     prefix [Log_sol_balance 0, Log_insufficient, Log_attempt 10000000000 1 3,
           Request_airdrop ?pk 10000000000]
     (trace (snd (fund_payer_raw ?rpc ?pk 0 \<lparr>world = 1, trace = [Log_sol_balance 0]\<rparr>)))"
    using funding_decision [of 0 ?rpc ?pk "\<lparr>world = 1, trace = [Log_sol_balance 0]\<rparr>",
        THEN conjunct2, THEN conjunct1]
    by (simp add: funding_threshold_def)
  have 3: "script_kit ?rpc ?pk \<lparr>world = 0, trace = []\<rparr> =
     (Exit 1, \<lparr>world = 4, trace = ?run @ [Err_airdrop_failed, Err_detail (Some ''airdrop disabled''),
        Err_payer ?pk, Err_fund_manually]\<rparr>)"
    using funding_decision [of 0 ?rpc ?pk "\<lparr>world = 0, trace = []\<rparr>",
        THEN conjunct2, THEN conjunct2, THEN conjunct1, rule_format,
        of 1 ?e "\<lparr>world = 4, trace = ?run\<rparr>"]
    by (simp add: ev) (simp add: new_Error_def)
  have 4: "script_raw ?rpc ?pk \<lparr>world = 0, trace = []\<rparr> =
     (Exit 1, \<lparr>world = 5, trace = ?run @ [Err_airdrop_failed, Err_detail (Some ''airdrop disabled''),
        Err_payer ?pk, Err_fund_manually]\<rparr>)"
    using funding_decision [of 0 ?rpc ?pk "\<lparr>world = 0, trace = []\<rparr>",
        THEN conjunct2, THEN conjunct2, THEN conjunct2, THEN conjunct1, rule_format,
        of "(''blockhash'', 150)" 1 2 ?e "\<lparr>world = 5, trace = ?run\<rparr>"]
    by (simp add: ev) (simp add: new_Error_def)
  from 1 2 3 4 show ?thesis by simp
qed

lemma script_kit_recheck_fails:
  assumes "getBalance rpc payer (world s) = (Inr balance, w0)" "balance < funding_threshold"
    "airdropWithRetry_kit rpc payer 10000000000 3
       \<lparr>world = w0, trace = trace s @ [Log_sol_balance balance, Log_insufficient]\<rparr> = (Return v, s1)"
    "getBalance rpc payer (world s1) = (Inr nb, w2)" "nb < funding_threshold"
  shows "script_kit rpc payer s =
     (Exit 1, \<lparr>world = w2,
               trace = trace s1 @ [Log_balance_after_airdrop nb, Err_airdrop_failed,
                                   Err_detail (Some still_insufficient_message), Err_payer payer,
                                   Err_fund_manually]\<rparr>)"
  using assms
  by (simp add: script_kit_def finish_def main_kit_def fund_payer_kit_def funding_failed_def
      prog_defs pstate_norm new_Error_def)

lemma fund_payer_kit_proceeds:
  assumes "balance < funding_threshold" "fund_payer_kit rpc payer balance s = (Return (), s')"
  shows "\<exists>v s1 nb. airdropWithRetry_kit rpc payer 10000000000 3 (emit Log_insufficient s) = (Return v, s1) \<and>
           getBalance rpc payer (world s1) = (Inr nb, world s') \<and> funding_threshold \<le> nb \<and>
           trace s' = trace s1 @ [Log_balance_after_airdrop nb]"
  using assms
  by (auto simp: fund_payer_kit_def funding_failed_def prog_defs pstate_norm
      split: prod.splits outcome.splits sum.splits if_splits)

lemma loop_kit_no_exit_aux:
  "m - r = k \<Longrightarrow> fst (airdrop_loop_kit rpc pk amt m r s) \<noteq> Exit c"
proof (induction k arbitrary: r s)
  case 0
  then have "\<not> r < m" by simp
  then show ?case by (subst airdrop_loop_kit.simps) simp
next
  case (Suc k)
  then have lt: "r < m" by simp
  from Suc.prems have k: "m - (r + 1) = k" by simp
  show ?case
    using lt Suc.IH [OF k]
    by (subst airdrop_loop_kit.simps) (auto split: prod.splits sum.splits)
qed

lemma airdropWithRetry_kit_no_exit: "airdropWithRetry_kit rpc pk amt m s \<noteq> (Exit c, s1)"
  using loop_kit_no_exit_aux [OF refl, of rpc pk amt m 0 s c]
  by (auto simp: airdropWithRetry_kit_def)

lemma fund_payer_kit_ends:
  assumes "balance < funding_threshold"
  shows "fst (fund_payer_kit rpc payer balance s) = Return () \<or>
         fst (fund_payer_kit rpc payer balance s) = Exit 1"
  using assms
  by (auto simp: fund_payer_kit_def funding_failed_def prog_defs pstate_norm
      airdropWithRetry_kit_no_exit
      split: prod.splits outcome.splits sum.splits if_splits)

text \<open>
  C10. In the kit variant, once the funding branch is taken, the funding step returns only
  when the airdrop call returned and the balance read again afterwards is at least
  10000000 base units; otherwise the step exits with code 1. In particular, when the
  balance read again is still below the threshold, the script exits with code 1 right
  after the read and never reaches the creation of the mint.
\<close>

theorem kit_funding_recheck:
  "(\<forall>w0 v s1 nb w2.
      getBalance rpc payer (world s) = (Inr balance, w0) \<and> balance < funding_threshold \<and>
      airdropWithRetry_kit rpc payer 10000000000 3
        \<lparr>world = w0, trace = trace s @ [Log_sol_balance balance, Log_insufficient]\<rparr> =
        (Return v, s1) \<and>
      getBalance rpc payer (world s1) = (Inr nb, w2) \<and> nb < funding_threshold \<longrightarrow>
      script_kit rpc payer s =
        (Exit 1, \<lparr>world = w2,
                  trace = trace s1 @ [Log_balance_after_airdrop nb, Err_airdrop_failed,
                                      Err_detail (Some still_insufficient_message),
                                      Err_payer payer, Err_fund_manually]\<rparr>)) \<and>
   (\<forall>s'. balance < funding_threshold \<and>
         fund_payer_kit rpc payer balance s = (Return (), s') \<longrightarrow>
      (\<exists>v s1 nb.
         airdropWithRetry_kit rpc payer 10000000000 3 (emit Log_insufficient s) = (Return v, s1) \<and>
         getBalance rpc payer (world s1) = (Inr nb, world s') \<and> funding_threshold \<le> nb \<and>
         trace s' = trace s1 @ [Log_balance_after_airdrop nb])) \<and>
   (balance < funding_threshold \<longrightarrow>
      fst (fund_payer_kit rpc payer balance s) = Return () \<or>
      fst (fund_payer_kit rpc payer balance s) = Exit 1) \<and>
   funding_threshold = 10000000"
  using script_kit_recheck_fails [of rpc payer s balance]
    fund_payer_kit_proceeds [of balance rpc payer s] fund_payer_kit_ends [of balance rpc payer s]
  by (intro conjI allI impI) (auto simp: funding_threshold_def)

theorem kit_funding_recheck_witness:
  "script_kit (script_rpc (\<lambda>n. Inl too_many_requests) (\<lambda>n. Inr None) (\<lambda>n. Inr 0))
     (Pubkey 1) \<lparr>world = 0, trace = []\<rparr> =
     (Exit 1,
      \<lparr>world = 5,
       trace = [Log_sol_balance 0, Log_insufficient,
                Log_attempt 10000000000 1 3, Request_airdrop (Pubkey 1) 10000000000,
                Warn_rate_limited 2, Backoff_sleep 2000,
                Log_attempt 10000000000 2 3, Request_airdrop (Pubkey 1) 10000000000,
                Warn_rate_limited 4, Backoff_sleep 4000,
                Log_attempt 10000000000 3 3, Request_airdrop (Pubkey 1) 10000000000,
                Warn_rate_limited 8, Backoff_sleep 8000,
                Log_balance_after_airdrop 0,
                Err_airdrop_failed, Err_detail (Some still_insufficient_message),
                Err_payer (Pubkey 1), Err_fund_manually]\<rparr>) \<and>
   (\<exists>v s1 nb.
      airdropWithRetry_kit
        (script_rpc (\<lambda>n. Inr ''sig'') (\<lambda>n. Inr (Some Confirmed))
           (\<lambda>n. if n = 0 then Inr 0 else Inr 10000000000))
        (Pubkey 1) 10000000000 3
        (emit Log_insufficient \<lparr>world = 1, trace = [Log_sol_balance 0]\<rparr>) = (Return v, s1) \<and>
      getBalance
        (script_rpc (\<lambda>n. Inr ''sig'') (\<lambda>n. Inr (Some Confirmed))
           (\<lambda>n. if n = 0 then Inr 0 else Inr 10000000000))
        (Pubkey 1) (world s1) = (Inr nb, 4) \<and>
      funding_threshold \<le> nb) \<and>
   (fst (fund_payer_kit (script_rpc (\<lambda>n. Inl too_many_requests) (\<lambda>n. Inr None) (\<lambda>n. Inr 0))
           (Pubkey 1) 0 \<lparr>world = 1, trace = [Log_sol_balance 0]\<rparr>) = Return () \<or>
    fst (fund_payer_kit (script_rpc (\<lambda>n. Inl too_many_requests) (\<lambda>n. Inr None) (\<lambda>n. Inr 0))
           (Pubkey 1) 0 \<lparr>world = 1, trace = [Log_sol_balance 0]\<rparr>) = Exit 1)"
proof -
  let ?rpc = "script_rpc (\<lambda>n. Inl too_many_requests) (\<lambda>n. Inr None) (\<lambda>n. Inr 0)"
  let ?ok = "script_rpc (\<lambda>n. Inr ''sig'') (\<lambda>n. Inr (Some Confirmed))
           (\<lambda>n. if n = 0 then Inr 0 else Inr 10000000000)"
  let ?pk = "Pubkey 1"
  let ?run = "[Log_sol_balance 0, Log_insufficient,
                Log_attempt 10000000000 1 3, Request_airdrop ?pk 10000000000,
                Warn_rate_limited 2, Backoff_sleep 2000,
                Log_attempt 10000000000 2 3, Request_airdrop ?pk 10000000000,
                Warn_rate_limited 4, Backoff_sleep 4000,
                Log_attempt 10000000000 3 3, Request_airdrop ?pk 10000000000,
                Warn_rate_limited 8, Backoff_sleep 8000]"
  let ?s1 = "\<lparr>world = 1 :: nat, trace = [Log_sol_balance 0]\<rparr>"
  note ev = airdropWithRetry_kit_def airdrop_loop_kit.simps airdrop_attempt_kit_def script_rpc_def
    Let_def pstate_norm rate_limited_429 backoff_def funding_threshold_def
  have 1: "script_kit ?rpc ?pk \<lparr>world = 0, trace = []\<rparr> =
     (Exit 1, \<lparr>world = 5, trace = ?run @ [Log_balance_after_airdrop 0,
                Err_airdrop_failed, Err_detail (Some still_insufficient_message),
                Err_payer ?pk, Err_fund_manually]\<rparr>)"
    using kit_funding_recheck [of ?rpc ?pk "\<lparr>world = 0, trace = []\<rparr>" 0, THEN conjunct1,
        rule_format, of 1 None "\<lparr>world = 4, trace = ?run\<rparr>" 0 5]
    by (simp add: ev)
  have 2: "\<exists>v s1 nb.
      airdropWithRetry_kit ?ok ?pk 10000000000 3 (emit Log_insufficient ?s1) = (Return v, s1) \<and>
      getBalance ?ok ?pk (world s1) = (Inr nb, 4) \<and> funding_threshold \<le> nb"
    using kit_funding_recheck [of ?ok ?pk ?s1 0, THEN conjunct2, THEN conjunct1, rule_format,
        of "\<lparr>world = 4, trace = [Log_sol_balance 0, Log_insufficient,
              Log_attempt 10000000000 1 3, Request_airdrop ?pk 10000000000,
              Poll_sleep 1000, Status_query ''sig'', Log_airdrop_ok,
              Log_balance_after_airdrop 10000000000]\<rparr>"]
    by (simp add: ev fund_payer_kit_def prog_defs poll_step)
  have 3: "fst (fund_payer_kit ?rpc ?pk 0 ?s1) = Return () \<or>
           fst (fund_payer_kit ?rpc ?pk 0 ?s1) = Exit 1"
    using kit_funding_recheck [of ?rpc ?pk ?s1 0, THEN conjunct2, THEN conjunct2, THEN conjunct1]
    by (simp add: funding_threshold_def)
  from 1 have "script_kit ?rpc ?pk \<lparr>world = 0, trace = []\<rparr> =
     (Exit 1,
      \<lparr>world = 5,
       trace = [Log_sol_balance 0, Log_insufficient,
                Log_attempt 10000000000 1 3, Request_airdrop (Pubkey 1) 10000000000,
                Warn_rate_limited 2, Backoff_sleep 2000,
                Log_attempt 10000000000 2 3, Request_airdrop (Pubkey 1) 10000000000,
                Warn_rate_limited 4, Backoff_sleep 4000,
                Log_attempt 10000000000 3 3, Request_airdrop (Pubkey 1) 10000000000,
                Warn_rate_limited 8, Backoff_sleep 8000,
                Log_balance_after_airdrop 0,
                Err_airdrop_failed, Err_detail (Some still_insufficient_message),
                Err_payer (Pubkey 1), Err_fund_manually]\<rparr>)"
    by simp
  with 2 3 show ?thesis by blast
qed

section \<open>The workflow on the reference ledger\<close>

lemmas ledger_defs = ledger_rpc_def transport_def submit_def token_amount_def

lemmas kit_defs = main_kit_def fund_payer_kit_def create_mint_kit_def holder_account_kit_def
      issue_and_transfer_kit_def sendAndConfirmTransaction_def accountExists_def getTokenBalance_def
      getSignatureFromTransaction_def

lemmas raw_defs = main_raw_def fund_payer_raw_def createMintRaw_def
      getOrCreateAssociatedTokenAccountRaw_def getAssociatedTokenAddress_def mintToRaw_def
      transferRaw_def issue_and_transfer_raw_def


text \<open>
  C9. On the reference ledger, with no transport fault, a payer who holds at least the
  funding threshold and fresh addresses for the mint and the two holder accounts, both
  variants run to the end without asking for funds: they create a mint with 9 decimals,
  create the payer's holder account, issue 1000000000000 base units to it, create the
  receiver's holder account (balance 0), transfer 100000000000 base units from the payer
  to the receiver, and the balances read at the end are 900000000000 for the payer and
  100000000000 for the receiver, as they are on the ledger.
\<close>

theorem provisioning_end_to_end:
  assumes quiet: "\<forall>k. fault w k = None"
    and funded: "funding_threshold \<le> lamports w (Pubkey p)"
    and old: "p < next_key w"
    and fresh: "accounts w (Pubkey (next_key w)) = None"
      "accounts w (Ata (Pubkey (next_key w)) (Pubkey p)) = None"
      "accounts w (Ata (Pubkey (next_key w)) (Pubkey (next_key w + 1))) = None"
  shows "(\<exists>w1. main_kit ledger_rpc (Pubkey p) \<lparr>world = w, trace = t\<rparr> =
     (Return (),
      \<lparr>world = w1,
       trace = t @
         [Log_sol_balance (lamports w (Pubkey p)),
          Send_transaction
            [CreateAccount (Pubkey p) (Pubkey (next_key w)) 82 1461600,
             InitializeMint (Pubkey (next_key w)) 9 (Pubkey p) (Some (Pubkey p))],
          Log_mint_address (Pubkey (next_key w)),
          Send_transaction
            [CreateAssociatedToken (Pubkey p) (Ata (Pubkey (next_key w)) (Pubkey p)) (Pubkey p)
               (Pubkey (next_key w))],
          Log_ata_created (Ata (Pubkey (next_key w)) (Pubkey p)),
          Log_token_account (Ata (Pubkey (next_key w)) (Pubkey p)) 0,
          Send_transaction
            [MintTo (Pubkey (next_key w)) (Ata (Pubkey (next_key w)) (Pubkey p)) (Pubkey p)
               1000000000000],
          Log_minted ''signature'',
          Log_new_balance 1000000000000,
          Log_receiver (Pubkey (next_key w + 1)),
          Send_transaction
            [CreateAssociatedToken (Pubkey p)
               (Ata (Pubkey (next_key w)) (Pubkey (next_key w + 1))) (Pubkey (next_key w + 1))
               (Pubkey (next_key w))],
          Log_ata_created (Ata (Pubkey (next_key w)) (Pubkey (next_key w + 1))),
          Log_token_account (Ata (Pubkey (next_key w)) (Pubkey (next_key w + 1))) 0,
          Send_transaction
            [Transfer (Ata (Pubkey (next_key w)) (Pubkey p))
               (Ata (Pubkey (next_key w)) (Pubkey (next_key w + 1))) (Pubkey p) 100000000000],
          Log_transferred ''signature'',
          Log_final_balances 900000000000 100000000000]\<rparr>) \<and>
     accounts w1 (Pubkey (next_key w)) =
       Some (Mint_account 9 1000000000000 (Some (Pubkey p)) (Some (Pubkey p))) \<and>
     accounts w1 (Ata (Pubkey (next_key w)) (Pubkey p)) =
       Some (Token_account (Pubkey (next_key w)) (Pubkey p) 900000000000) \<and>
     accounts w1 (Ata (Pubkey (next_key w)) (Pubkey (next_key w + 1))) =
       Some (Token_account (Pubkey (next_key w)) (Pubkey (next_key w + 1)) 100000000000)) \<and>
   (\<exists>w1. main_raw ledger_rpc (Pubkey p) \<lparr>world = w, trace = t\<rparr> =
     (Return (),
      \<lparr>world = w1,
       trace = t @
         [Log_sol_balance (lamports w (Pubkey p)),
          Send_transaction
            [CreateAccount (Pubkey p) (Pubkey (next_key w)) 82 1461600,
             InitializeMint (Pubkey (next_key w)) 9 (Pubkey p) (Some (Pubkey p))],
          Log_mint_address (Pubkey (next_key w)),
          Send_transaction
            [CreateAssociatedTokenIdempotent (Pubkey p) (Ata (Pubkey (next_key w)) (Pubkey p))
               (Pubkey p) (Pubkey (next_key w))],
          Log_ata_created (Ata (Pubkey (next_key w)) (Pubkey p)),
          Log_holder_address (Ata (Pubkey (next_key w)) (Pubkey p)),
          Log_holder_amount 0,
          Send_transaction
            [MintTo (Pubkey (next_key w)) (Ata (Pubkey (next_key w)) (Pubkey p)) (Pubkey p)
               1000000000000],
          Log_minted ''signature'',
          Log_new_balance 1000000000000,
          Log_receiver (Pubkey (next_key w + 1)),
          Send_transaction
            [CreateAssociatedTokenIdempotent (Pubkey p)
               (Ata (Pubkey (next_key w)) (Pubkey (next_key w + 1))) (Pubkey (next_key w + 1))
               (Pubkey (next_key w))],
          Log_ata_created (Ata (Pubkey (next_key w)) (Pubkey (next_key w + 1))),
          Log_holder_address (Ata (Pubkey (next_key w)) (Pubkey (next_key w + 1))),
          Log_holder_amount 0,
          Send_transaction
            [Transfer (Ata (Pubkey (next_key w)) (Pubkey p))
               (Ata (Pubkey (next_key w)) (Pubkey (next_key w + 1))) (Pubkey p) 100000000000],
          Log_transferred ''signature'',
          Log_final_balances 900000000000 100000000000]\<rparr>) \<and>
     accounts w1 (Pubkey (next_key w)) =
       Some (Mint_account 9 1000000000000 (Some (Pubkey p)) (Some (Pubkey p))) \<and>
     accounts w1 (Ata (Pubkey (next_key w)) (Pubkey p)) =
       Some (Token_account (Pubkey (next_key w)) (Pubkey p) 900000000000) \<and>
     accounts w1 (Ata (Pubkey (next_key w)) (Pubkey (next_key w + 1))) =
       Some (Token_account (Pubkey (next_key w)) (Pubkey (next_key w + 1)) 100000000000))"
proof -
  have ne: "p \<noteq> next_key w" "p \<noteq> Suc (next_key w)" using old by simp_all
  have kit: "\<exists>w1. main_kit ledger_rpc (Pubkey p) \<lparr>world = w, trace = t\<rparr> =
     (Return (),
      \<lparr>world = w1,
       trace = t @
         [Log_sol_balance (lamports w (Pubkey p)),
          Send_transaction
            [CreateAccount (Pubkey p) (Pubkey (next_key w)) 82 1461600,
             InitializeMint (Pubkey (next_key w)) 9 (Pubkey p) (Some (Pubkey p))],
          Log_mint_address (Pubkey (next_key w)),
          Send_transaction
            [CreateAssociatedToken (Pubkey p) (Ata (Pubkey (next_key w)) (Pubkey p)) (Pubkey p)
               (Pubkey (next_key w))],
          Log_ata_created (Ata (Pubkey (next_key w)) (Pubkey p)),
          Log_token_account (Ata (Pubkey (next_key w)) (Pubkey p)) 0,
          Send_transaction
            [MintTo (Pubkey (next_key w)) (Ata (Pubkey (next_key w)) (Pubkey p)) (Pubkey p)
               1000000000000],
          Log_minted ''signature'',
          Log_new_balance 1000000000000,
          Log_receiver (Pubkey (next_key w + 1)),
          Send_transaction
            [CreateAssociatedToken (Pubkey p)
               (Ata (Pubkey (next_key w)) (Pubkey (next_key w + 1))) (Pubkey (next_key w + 1))
               (Pubkey (next_key w))],
          Log_ata_created (Ata (Pubkey (next_key w)) (Pubkey (next_key w + 1))),
          Log_token_account (Ata (Pubkey (next_key w)) (Pubkey (next_key w + 1))) 0,
          Send_transaction
            [Transfer (Ata (Pubkey (next_key w)) (Pubkey p))
               (Ata (Pubkey (next_key w)) (Pubkey (next_key w + 1))) (Pubkey p) 100000000000],
          Log_transferred ''signature'',
          Log_final_balances 900000000000 100000000000]\<rparr>) \<and>
     accounts w1 (Pubkey (next_key w)) =
       Some (Mint_account 9 1000000000000 (Some (Pubkey p)) (Some (Pubkey p))) \<and>
     accounts w1 (Ata (Pubkey (next_key w)) (Pubkey p)) =
       Some (Token_account (Pubkey (next_key w)) (Pubkey p) 900000000000) \<and>
     accounts w1 (Ata (Pubkey (next_key w)) (Pubkey (next_key w + 1))) =
       Some (Token_account (Pubkey (next_key w)) (Pubkey (next_key w + 1)) 100000000000)"
    using quiet funded fresh ne
    by (simp add: kit_defs prog_defs ledger_defs pstate_norm Let_def MINT_SIZE_def)
  have raw: "\<exists>w1. main_raw ledger_rpc (Pubkey p) \<lparr>world = w, trace = t\<rparr> =
     (Return (),
      \<lparr>world = w1,
       trace = t @
         [Log_sol_balance (lamports w (Pubkey p)),
          Send_transaction
            [CreateAccount (Pubkey p) (Pubkey (next_key w)) 82 1461600,
             InitializeMint (Pubkey (next_key w)) 9 (Pubkey p) (Some (Pubkey p))],
          Log_mint_address (Pubkey (next_key w)),
          Send_transaction
            [CreateAssociatedTokenIdempotent (Pubkey p) (Ata (Pubkey (next_key w)) (Pubkey p))
               (Pubkey p) (Pubkey (next_key w))],
          Log_ata_created (Ata (Pubkey (next_key w)) (Pubkey p)),
          Log_holder_address (Ata (Pubkey (next_key w)) (Pubkey p)),
          Log_holder_amount 0,
          Send_transaction
            [MintTo (Pubkey (next_key w)) (Ata (Pubkey (next_key w)) (Pubkey p)) (Pubkey p)
               1000000000000],
          Log_minted ''signature'',
          Log_new_balance 1000000000000,
          Log_receiver (Pubkey (next_key w + 1)),
          Send_transaction
            [CreateAssociatedTokenIdempotent (Pubkey p)
               (Ata (Pubkey (next_key w)) (Pubkey (next_key w + 1))) (Pubkey (next_key w + 1))
               (Pubkey (next_key w))],
          Log_ata_created (Ata (Pubkey (next_key w)) (Pubkey (next_key w + 1))),
          Log_holder_address (Ata (Pubkey (next_key w)) (Pubkey (next_key w + 1))),
          Log_holder_amount 0,
          Send_transaction
            [Transfer (Ata (Pubkey (next_key w)) (Pubkey p))
               (Ata (Pubkey (next_key w)) (Pubkey (next_key w + 1))) (Pubkey p) 100000000000],
          Log_transferred ''signature'',
          Log_final_balances 900000000000 100000000000]\<rparr>) \<and>
     accounts w1 (Pubkey (next_key w)) =
       Some (Mint_account 9 1000000000000 (Some (Pubkey p)) (Some (Pubkey p))) \<and>
     accounts w1 (Ata (Pubkey (next_key w)) (Pubkey p)) =
       Some (Token_account (Pubkey (next_key w)) (Pubkey p) 900000000000) \<and>
     accounts w1 (Ata (Pubkey (next_key w)) (Pubkey (next_key w + 1))) =
       Some (Token_account (Pubkey (next_key w)) (Pubkey (next_key w + 1)) 100000000000)"
    using quiet funded fresh ne
    by (simp add: raw_defs prog_defs ledger_defs pstate_norm Let_def MINT_SIZE_def)
  from kit raw show ?thesis by blast
qed

theorem provisioning_end_to_end_witness:
  "(\<exists>w1. main_kit ledger_rpc (Pubkey 1) \<lparr>world = quiet_ledger, trace = []\<rparr> =
     (Return (),
      \<lparr>world = w1,
       trace =
         [Log_sol_balance (20000000),
          Send_transaction
            [CreateAccount (Pubkey 1) (Pubkey 2) 82 1461600,
             InitializeMint (Pubkey 2) 9 (Pubkey 1) (Some (Pubkey 1))],
          Log_mint_address (Pubkey 2),
          Send_transaction
            [CreateAssociatedToken (Pubkey 1) (Ata (Pubkey 2) (Pubkey 1)) (Pubkey 1)
               (Pubkey 2)],
          Log_ata_created (Ata (Pubkey 2) (Pubkey 1)),
          Log_token_account (Ata (Pubkey 2) (Pubkey 1)) 0,
          Send_transaction
            [MintTo (Pubkey 2) (Ata (Pubkey 2) (Pubkey 1)) (Pubkey 1)
               1000000000000],
          Log_minted ''signature'',
          Log_new_balance 1000000000000,
          Log_receiver (Pubkey 3),
          Send_transaction
            [CreateAssociatedToken (Pubkey 1)
               (Ata (Pubkey 2) (Pubkey 3)) (Pubkey 3)
               (Pubkey 2)],
          Log_ata_created (Ata (Pubkey 2) (Pubkey 3)),
          Log_token_account (Ata (Pubkey 2) (Pubkey 3)) 0,
          Send_transaction
            [Transfer (Ata (Pubkey 2) (Pubkey 1))
               (Ata (Pubkey 2) (Pubkey 3)) (Pubkey 1) 100000000000],
          Log_transferred ''signature'',
          Log_final_balances 900000000000 100000000000]\<rparr>) \<and>
     accounts w1 (Pubkey 2) =
       Some (Mint_account 9 1000000000000 (Some (Pubkey 1)) (Some (Pubkey 1))) \<and>
     accounts w1 (Ata (Pubkey 2) (Pubkey 1)) =
       Some (Token_account (Pubkey 2) (Pubkey 1) 900000000000) \<and>
     accounts w1 (Ata (Pubkey 2) (Pubkey 3)) =
       Some (Token_account (Pubkey 2) (Pubkey 3) 100000000000)) \<and>
   (\<exists>w1. main_raw ledger_rpc (Pubkey 1) \<lparr>world = quiet_ledger, trace = []\<rparr> =
     (Return (),
      \<lparr>world = w1,
       trace =
         [Log_sol_balance (20000000),
          Send_transaction
            [CreateAccount (Pubkey 1) (Pubkey 2) 82 1461600,
             InitializeMint (Pubkey 2) 9 (Pubkey 1) (Some (Pubkey 1))],
          Log_mint_address (Pubkey 2),
          Send_transaction
            [CreateAssociatedTokenIdempotent (Pubkey 1) (Ata (Pubkey 2) (Pubkey 1))
               (Pubkey 1) (Pubkey 2)],
          Log_ata_created (Ata (Pubkey 2) (Pubkey 1)),
          Log_holder_address (Ata (Pubkey 2) (Pubkey 1)),
          Log_holder_amount 0,
          Send_transaction
            [MintTo (Pubkey 2) (Ata (Pubkey 2) (Pubkey 1)) (Pubkey 1)
               1000000000000],
          Log_minted ''signature'',
          Log_new_balance 1000000000000,
          Log_receiver (Pubkey 3),
          Send_transaction
            [CreateAssociatedTokenIdempotent (Pubkey 1)
               (Ata (Pubkey 2) (Pubkey 3)) (Pubkey 3)
               (Pubkey 2)],
          Log_ata_created (Ata (Pubkey 2) (Pubkey 3)),
          Log_holder_address (Ata (Pubkey 2) (Pubkey 3)),
          Log_holder_amount 0,
          Send_transaction
            [Transfer (Ata (Pubkey 2) (Pubkey 1))
               (Ata (Pubkey 2) (Pubkey 3)) (Pubkey 1) 100000000000],
          Log_transferred ''signature'',
          Log_final_balances 900000000000 100000000000]\<rparr>) \<and>
     accounts w1 (Pubkey 2) =
       Some (Mint_account 9 1000000000000 (Some (Pubkey 1)) (Some (Pubkey 1))) \<and>
     accounts w1 (Ata (Pubkey 2) (Pubkey 1)) =
       Some (Token_account (Pubkey 2) (Pubkey 1) 900000000000) \<and>
     accounts w1 (Ata (Pubkey 2) (Pubkey 3)) =
       Some (Token_account (Pubkey 2) (Pubkey 3) 100000000000))"
  using provisioning_end_to_end [of quiet_ledger 1 "[]"]
  by (simp add: quiet_ledger_def funding_threshold_def)

text \<open>
  The raw funding step in front of a faucet that always answers with rate limiting: the
  retrying airdrop returns \<^verbatim>\<open>undefined\<close>, nothing is caught, and the step
  returns as if the payer had been funded.
\<close>

lemma fund_payer_raw_throttled:
  assumes "\<forall>w. \<exists>e w1. requestAirdrop rpc payer 10000000000 w = (Inl e, w1) \<and>
                       rate_limited_raw e = Some True"
  shows "fst (fund_payer_raw rpc payer balance s) = Return ()"
proof (cases "balance < funding_threshold")
  case False
  then show ?thesis by (simp add: fund_payer_raw_def ret_def)
next
  case True
  obtain s1 where "airdropWithRetry_raw rpc payer 10000000000 3 (emit Log_insufficient s) =
      (Return None, s1)"
    using airdropWithRetry_raw_always_rate_limited [OF assms, of 3 "emit Log_insufficient s"]
    by (cases "airdropWithRetry_raw rpc payer 10000000000 3 (emit Log_insufficient s)") simp
  with True show ?thesis
    by (simp add: fund_payer_raw_def prog_defs LAMPORTS_PER_SOL_def)
qed


text \<open>
  C5. The claim: the workflow asks for an airdrop of 10 native units exactly when the
  payer's balance is below 0.01 native units, and when the funding with retries fails in
  the end it prints the error and the payer's address and exits with a code other than 0.
  The decision on the balance is as claimed, and so is the exit when the retrying airdrop
  throws (see the funding decision above). But when every attempt is rate limited the
  airdrop has failed and nothing is thrown: the raw variant, which does not look at the
  balance again, goes on to create the mint, and on a ledger that lets it pay it runs to
  the end and exits with code 0. The kit variant reads the balance again and exits with
  code 1.
\<close>

theorem raw_workflow_proceeds_unfunded:
  "fund_payer_raw (script_rpc (\<lambda>n. Inl too_many_requests) (\<lambda>n. Inr None) (\<lambda>n. Inr 0))
     (Pubkey 1) 0 \<lparr>world = 2, trace = [Log_sol_balance 0]\<rparr> =
   (Return (),
    \<lparr>world = 5,
     trace = [Log_sol_balance 0, Log_insufficient,
              Log_attempt 10000000000 1 3, Request_airdrop (Pubkey 1) 10000000000,
              Warn_rate_limited 2, Backoff_sleep 2000,
              Log_attempt 10000000000 2 3, Request_airdrop (Pubkey 1) 10000000000,
              Warn_rate_limited 4, Backoff_sleep 4000,
              Log_attempt 10000000000 3 3, Request_airdrop (Pubkey 1) 10000000000,
              Warn_rate_limited 8, Backoff_sleep 8000]\<rparr>) \<and>
   fst (script_raw throttled_ledger_rpc (Pubkey 1) \<lparr>world = poor_ledger, trace = []\<rparr>) = Exit 0 \<and>
   trace (snd (script_raw throttled_ledger_rpc (Pubkey 1) \<lparr>world = poor_ledger, trace = []\<rparr>)) =
     [Log_sol_balance 9000000, Log_insufficient,
      Log_attempt 10000000000 1 3, Request_airdrop (Pubkey 1) 10000000000,
      Warn_rate_limited 2, Backoff_sleep 2000,
      Log_attempt 10000000000 2 3, Request_airdrop (Pubkey 1) 10000000000,
      Warn_rate_limited 4, Backoff_sleep 4000,
      Log_attempt 10000000000 3 3, Request_airdrop (Pubkey 1) 10000000000,
      Warn_rate_limited 8, Backoff_sleep 8000,
      Send_transaction
        [CreateAccount (Pubkey 1) (Pubkey 2) 82 1461600,
         InitializeMint (Pubkey 2) 9 (Pubkey 1) (Some (Pubkey 1))],
      Log_mint_address (Pubkey 2),
      Send_transaction
        [CreateAssociatedTokenIdempotent (Pubkey 1) (Ata (Pubkey 2) (Pubkey 1)) (Pubkey 1) (Pubkey 2)],
      Log_ata_created (Ata (Pubkey 2) (Pubkey 1)),
      Log_holder_address (Ata (Pubkey 2) (Pubkey 1)),
      Log_holder_amount 0,
      Send_transaction [MintTo (Pubkey 2) (Ata (Pubkey 2) (Pubkey 1)) (Pubkey 1) 1000000000000],
      Log_minted ''signature'',
      Log_new_balance 1000000000000,
      Log_receiver (Pubkey 3),
      Send_transaction
        [CreateAssociatedTokenIdempotent (Pubkey 1) (Ata (Pubkey 2) (Pubkey 3)) (Pubkey 3) (Pubkey 2)],
      Log_ata_created (Ata (Pubkey 2) (Pubkey 3)),
      Log_holder_address (Ata (Pubkey 2) (Pubkey 3)),
      Log_holder_amount 0,
      Send_transaction
        [Transfer (Ata (Pubkey 2) (Pubkey 1)) (Ata (Pubkey 2) (Pubkey 3)) (Pubkey 1) 100000000000],
      Log_transferred ''signature'',
      Log_final_balances 900000000000 100000000000,
      Log_success] \<and>
   fst (script_kit throttled_ledger_rpc (Pubkey 1) \<lparr>world = poor_ledger, trace = []\<rparr>) = Exit 1 \<and>
   trace (snd (script_kit throttled_ledger_rpc (Pubkey 1) \<lparr>world = poor_ledger, trace = []\<rparr>)) =
     [Log_sol_balance 9000000, Log_insufficient,
      Log_attempt 10000000000 1 3, Request_airdrop (Pubkey 1) 10000000000,
      Warn_rate_limited 2, Backoff_sleep 2000,
      Log_attempt 10000000000 2 3, Request_airdrop (Pubkey 1) 10000000000,
      Warn_rate_limited 4, Backoff_sleep 4000,
      Log_attempt 10000000000 3 3, Request_airdrop (Pubkey 1) 10000000000,
      Warn_rate_limited 8, Backoff_sleep 8000,
      Log_balance_after_airdrop 9000000,
      Err_airdrop_failed, Err_detail (Some still_insufficient_message), Err_payer (Pubkey 1),
      Err_fund_manually]"
  by (simp add: throttled_ledger_rpc_def poor_ledger_def quiet_ledger_def script_raw_def
      script_kit_def finish_def raw_defs kit_defs prog_defs ledger_defs pstate_norm Let_def
      MINT_SIZE_def LAMPORTS_PER_SOL_def funding_threshold_def funding_failed_def
      airdropWithRetry_raw_def airdrop_loop_raw.simps airdrop_attempt_raw_def
      airdropWithRetry_kit_def airdrop_loop_kit.simps airdrop_attempt_kit_def script_rpc_def
      rate_limited_429 backoff_def new_Error_def)

text \<open>
  The holder-account step run a second time. On the reference ledger the raw function
  returns the same address again and leaves the accounts as they are, whether or not its
  lookup suffers a fault, as long as the ledger holds a holder account of that mint and
  owner at the address and the submission itself gets through. The kit step returns the
  same address again when its probe is answered.
\<close>

lemma raw_holder_account_idempotent:
  assumes first: "getOrCreateAssociatedTokenAccountRaw ledger_rpc payer mint owner s = (Return a, s1)"
    and sound: "\<forall>acc. accounts (world s1) (Ata mint owner) = Some acc \<longrightarrow>
        (\<exists>amount. acc = Token_account mint owner amount) \<and>
        (\<exists>d supply au fr. accounts (world s1) mint = Some (Mint_account d supply au fr))"
    and sent: "fault (world s1) (calls (world s1) + 1) = None"
  shows "\<exists>s2. getOrCreateAssociatedTokenAccountRaw ledger_rpc payer mint owner s1 = (Return a, s2) \<and>
           accounts (world s2) = accounts (world s1)"
proof -
  from first obtain k where ow: "owner = Pubkey k" and a: "a = Ata mint owner"
    by (cases owner)
       (auto simp: raw_defs prog_defs ledger_defs pstate_norm Let_def
          split: prod.splits outcome.splits sum.splits option.splits if_splits)
  from first ow have present: "accounts (world s1) (Ata mint owner) \<noteq> None"
    by (auto simp: raw_defs prog_defs ledger_defs pstate_norm Let_def
          split: prod.splits outcome.splits sum.splits option.splits if_splits account.splits)
  then obtain acc where acc: "accounts (world s1) (Ata mint owner) = Some acc" by auto
  with sound obtain amount d total au fr where
    t: "accounts (world s1) (Ata mint owner) = Some (Token_account mint owner amount)"
    and m: "accounts (world s1) mint = Some (Mint_account d total au fr)" by blast
  show ?thesis
    using ow a t m sent
    by (cases "fault (world s1) (calls (world s1))")
       (auto simp: raw_defs prog_defs ledger_defs pstate_norm Let_def)
qed

lemma accountExists_on_ledger:
  "accountExists ledger_rpc a s =
     (Return (fault (world s) (calls (world s)) = None \<and> accounts (world s) a \<noteq> None),
      \<lparr>world = (world s)\<lparr>calls := calls (world s) + 1\<rparr>, trace = trace s\<rparr>)"
  by (auto simp: accountExists_def prog_defs ledger_defs pstate_norm Let_def split: option.splits)

lemma send_kit_on_ledger:
  assumes "sendAndConfirmTransaction (sendAndConfirm ledger_rpc) ledger_rpc ixs payer ex s = (Return sig, s1)"
  shows "apply_instructions (payer # concat (map instruction_signers ixs)) ixs (accounts (world s)) =
           Some (accounts (world s1))"
  using assms
  by (auto simp: sendAndConfirmTransaction_def prog_defs ledger_defs pstate_norm Let_def
      split: option.splits if_splits)

lemma create_ata_present:
  "apply_instructions sg [CreateAssociatedToken payer a owner mint] accs = Some accs1 \<Longrightarrow>
   accs1 a \<noteq> None"
  by (auto split: option.splits account.splits if_splits)

lemma kit_holder_account_second_run:
  assumes first: "holder_account_kit ledger_rpc payer owner mint s = (Return a, s1)"
    and probe: "fault (world s1) (calls (world s1)) = None"
  shows "holder_account_kit ledger_rpc payer owner mint s1 =
           (Return a, \<lparr>world = (world s1)\<lparr>calls := calls (world s1) + 1\<rparr>,
                       trace = trace s1 @ [Log_ata_exists a]\<rparr>)"
proof -
  let ?A = "Ata mint owner"
  let ?s' = "\<lparr>world = (world s)\<lparr>calls := calls (world s) + 1\<rparr>, trace = trace s\<rparr>"
  have present: "accounts (world s1) ?A \<noteq> None \<and> a = ?A"
  proof (cases "fault (world s) (calls (world s)) = None \<and> accounts (world s) ?A \<noteq> None")
    case True
    with first show ?thesis
      by (auto simp: holder_account_kit_def Let_def accountExists_on_ledger andThen_def say_def ret_def
          pstate_norm)
  next
    case False
    obtain r s2 where
      snd: "sendAndConfirmTransaction (sendAndConfirm ledger_rpc) ledger_rpc
              [CreateAssociatedToken payer ?A owner mint] payer [] ?s' = (r, s2)"
      by (cases "sendAndConfirmTransaction (sendAndConfirm ledger_rpc) ledger_rpc
              [CreateAssociatedToken payer ?A owner mint] payer [] ?s'")
    have run: "holder_account_kit ledger_rpc payer owner mint s =
        (case r of
           Return sig \<Rightarrow> (Return ?A, \<lparr>world = world s2, trace = trace s2 @ [Log_ata_created ?A]\<rparr>)
         | Throw e \<Rightarrow> (Throw e, \<lparr>world = world s2, trace = trace s2 @ [Err_cannot_create_ata]\<rparr>)
         | Exit c \<Rightarrow> (Exit c, s2))"
      using False snd
      by (cases r)
         (simp_all add: holder_account_kit_def Let_def accountExists_on_ledger andThen_def
            try_catch_def say_def ret_def throw_def pstate_norm)
    show ?thesis
    proof (cases r)
      case (Return sig)
      with run first have fin: "world s1 = world s2" "a = ?A" by auto
      from create_ata_present [OF send_kit_on_ledger [OF snd [unfolded Return]]] fin
      show ?thesis by simp
    next
      case (Throw e)
      with run first show ?thesis by simp
    next
      case (Exit c)
      with run first show ?thesis by simp
    qed
  qed
  then show ?thesis using probe
    by (simp add: holder_account_kit_def Let_def accountExists_on_ledger andThen_def say_def ret_def
        pstate_norm)
qed

lemma ledger_rejected_not_expiry:
  "\<not> isSolanaError ledger_rejected SOLANA_ERROR_BLOCK_HEIGHT_EXCEEDED"
  by (simp add: isSolanaError_def ledger_rejected_def SOLANA_ERROR_BLOCK_HEIGHT_EXCEEDED_def)

text \<open>
  C8. The claim: running the holder-account step twice for the same mint and owner gives
  the same address twice, and the second run does not raise, because it either sends no
  creation or sends the idempotent one. The raw variant does so. The kit variant sends
  the plain creation instruction whenever its existence probe says no, and the probe says
  no on a transport error: here the second probe suffers a fault, the ledger refuses to
  create the account that exists, and the second run throws the ledger's error.
\<close>

theorem holder_account_twice_kit_raises:
  "fst (holder_account_kit ledger_rpc (Pubkey 1) (Pubkey 1) (Pubkey 2)
          \<lparr>world = probe_fault_ledger 3, trace = []\<rparr>) = Return (Ata (Pubkey 2) (Pubkey 1)) \<and>
   fst (andThen (holder_account_kit ledger_rpc (Pubkey 1) (Pubkey 1) (Pubkey 2))
          (\<lambda>first. holder_account_kit ledger_rpc (Pubkey 1) (Pubkey 1) (Pubkey 2))
          \<lparr>world = probe_fault_ledger 3, trace = []\<rparr>) = Throw ledger_rejected \<and>
   trace (snd (andThen (holder_account_kit ledger_rpc (Pubkey 1) (Pubkey 1) (Pubkey 2))
          (\<lambda>first. holder_account_kit ledger_rpc (Pubkey 1) (Pubkey 1) (Pubkey 2))
          \<lparr>world = probe_fault_ledger 3, trace = []\<rparr>)) =
     [Send_transaction [CreateAssociatedToken (Pubkey 1) (Ata (Pubkey 2) (Pubkey 1)) (Pubkey 1) (Pubkey 2)],
      Log_ata_created (Ata (Pubkey 2) (Pubkey 1)),
      Send_transaction [CreateAssociatedToken (Pubkey 1) (Ata (Pubkey 2) (Pubkey 1)) (Pubkey 1) (Pubkey 2)],
      Err_cannot_create_ata] \<and>
   fst (andThen (getOrCreateAssociatedTokenAccountRaw ledger_rpc (Pubkey 1) (Pubkey 2) (Pubkey 1))
          (\<lambda>first. getOrCreateAssociatedTokenAccountRaw ledger_rpc (Pubkey 1) (Pubkey 2) (Pubkey 1))
          \<lparr>world = probe_fault_ledger 2, trace = []\<rparr>) = Return (Ata (Pubkey 2) (Pubkey 1)) \<and>
   trace (snd (andThen (getOrCreateAssociatedTokenAccountRaw ledger_rpc (Pubkey 1) (Pubkey 2) (Pubkey 1))
          (\<lambda>first. getOrCreateAssociatedTokenAccountRaw ledger_rpc (Pubkey 1) (Pubkey 2) (Pubkey 1))
          \<lparr>world = probe_fault_ledger 2, trace = []\<rparr>)) =
     [Send_transaction [CreateAssociatedTokenIdempotent (Pubkey 1) (Ata (Pubkey 2) (Pubkey 1)) (Pubkey 1) (Pubkey 2)],
      Log_ata_created (Ata (Pubkey 2) (Pubkey 1)),
      Send_transaction [CreateAssociatedTokenIdempotent (Pubkey 1) (Ata (Pubkey 2) (Pubkey 1)) (Pubkey 1) (Pubkey 2)],
      Log_ata_created (Ata (Pubkey 2) (Pubkey 1))]"
  by (simp add: probe_fault_ledger_def kit_defs raw_defs prog_defs ledger_defs pstate_norm Let_def
      ledger_rejected_not_expiry)

end
